theory Spec2Isabelle
  imports Main "HOL-Library.Word"
begin

unbundle bit_operations_syntax

section \<open>The cpu client (cmds/cpu/cpu.go)\<close>

text \<open>
  A shallow embedding of the client of the cpu command. Go strings and byte slices are
  \<open>string\<close> (lists of 8-bit characters); the bytes read from the random source are
  \<open>8 word\<close>, since they are shifted and masked when printed. Every call into the
  operating system or into the ssh library is a field of a record of outcomes, so that
  each error return of the source is a branch of the model.
\<close>

subsection \<open>Library functions the client calls\<close>

type_synonym byte = "8 word"

text \<open>\<open>ldigits\<close> of package fmt.\<close>

definition ldigits :: string where
  "ldigits = ''0123456789abcdefx''"

text \<open>
  The loop body of \<open>fmtSbx\<close> of package fmt: one byte \<open>c\<close> is printed as
  \<open>digits[c>>4], digits[c&0xF]\<close>.
\<close>

definition hex_byte :: "byte \<Rightarrow> string" where
  "hex_byte c = [ldigits ! unat (drop_bit 4 c), ldigits ! unat (c AND 0xF)]"

text \<open>
  \<open>fmt.Sprintf("%02x", b)\<close> for a byte array \<open>b\<close>: the verb \<open>x\<close> prints a byte array
  as one hexadecimal string of \<open>2 * len(b)\<close> digits; the width 2 pads on the left only
  when the string is shorter than the width, which is the case of the empty array only
  (with zeros in the Go of this code; later versions ignore the zero flag here). The
  array of \<open>generateNonce\<close> is never empty.
\<close>

definition Sprintf_02x :: "byte list \<Rightarrow> string" where
  "Sprintf_02x b = replicate (2 - 2 * length b) (CHR ''0'') @ concat (map hex_byte b)"

text \<open>
  The builtin \<open>copy(dst, src)\<close>: the first \<open>min(len(dst), len(src))\<close> elements of
  \<open>dst\<close> are overwritten, the rest of \<open>dst\<close> is kept.
\<close>

definition copy :: "'a list \<Rightarrow> 'a list \<Rightarrow> 'a list" where
  "copy dst src = take (min (length dst) (length src)) src @ drop (min (length dst) (length src)) dst"

text \<open>
  \<open>strings.Index(s, sep)\<close> for a separator of one byte: the index of its first
  occurrence, \<open>None\<close> for Go's \<open>-1\<close>.
\<close>

fun Index :: "string \<Rightarrow> char \<Rightarrow> nat option" where
  "Index [] sep = None"
| "Index (c # s) sep = (if c = sep then Some 0 else map_option Suc (Index s sep))"

text \<open>\<open>strings.Count(s, sep)\<close> for a separator of one byte.\<close>

definition Count :: "string \<Rightarrow> char \<Rightarrow> nat" where
  "Count s sep = length (filter (\<lambda>c. c = sep) s)"

text \<open>
  The loop of \<open>genSplit\<close> of package strings (separator of one byte, nothing of the
  separator saved): \<open>k\<close> is the number of cuts still allowed, \<open>n - 1 - i\<close> in the source.
\<close>

fun genSplit :: "string \<Rightarrow> char \<Rightarrow> nat \<Rightarrow> string list" where
  "genSplit s sep 0 = [s]"
| "genSplit s sep (Suc k) =
     (case Index s sep of
        None \<Rightarrow> [s]
      | Some m \<Rightarrow> take m s # genSplit (drop (m + 1) s) sep k)"

text \<open>\<open>strings.Split(s, sep)\<close> is \<open>genSplit(s, sep, 0, -1)\<close>, where \<open>n\<close> becomes \<open>Count(s, sep) + 1\<close>.\<close>

definition Split :: "string \<Rightarrow> char \<Rightarrow> string list" where
  "Split s sep = genSplit s sep (Count s sep)"

text \<open>\<open>strings.SplitN(s, sep, n)\<close> for \<open>n > 0\<close> is \<open>genSplit(s, sep, 0, n)\<close>.\<close>

definition SplitN :: "string \<Rightarrow> char \<Rightarrow> nat \<Rightarrow> string list" where
  "SplitN s sep n = (if n = 0 then [] else genSplit s sep (n - 1))"

subsection \<open>Errors\<close>

text \<open>
  A Go \<open>error\<close>. The client tells one kind from all the others: \<open>*ssh.ExitError\<close>, which
  carries the exit status of the remote command (\<open>ExitStatus()\<close>) and a message. Every
  other error is its message.
\<close>

datatype error = ExitError int string | Err string

subsection \<open>The nonce\<close>

text \<open>\<open>type nonce [32]byte\<close>; \<open>nonce{}\<close> is 32 zero bytes.\<close>

type_synonym nonce = string

definition nonce_len :: nat where
  "nonce_len = 32"

definition nonce_zero :: nonce where
  "nonce_zero = replicate nonce_len (char_of (0::nat))"

text \<open>
  \<open>rand.Read(b[:])\<close> either fails or fills the whole of \<open>b\<close>: its outcome is the message
  of an error, or the stream of random bytes that the array is filled from.
\<close>

type_synonym rand_outcome = "string + (nat \<Rightarrow> byte)"

text \<open>
  \<open>generateNonce\<close>: the array \<open>b\<close> has \<open>len(nonce{}) / 2\<close> bytes. On an error the source
  returns \<open>nonce{}, err\<close>: the result is the error.
\<close>

definition generateNonce :: "rand_outcome \<Rightarrow> error + nonce" where
  "generateNonce rnd =
     (case rnd of
        Inl err \<Rightarrow> Inl (Err err)
      | Inr src \<Rightarrow>
          (let b = map src [0 ..< nonce_len div 2];
               n = copy nonce_zero (Sprintf_02x b)
           in Inr n))"

text \<open>\<open>func (n nonce) String() string\<close>.\<close>

definition nonce_String :: "nonce \<Rightarrow> string" where
  "nonce_String n = n"

subsection \<open>More library functions\<close>

text \<open>\<open>strings.Join(a, sep)\<close>.\<close>

fun Join :: "string list \<Rightarrow> string \<Rightarrow> string" where
  "Join [] sep = []"
| "Join [x] sep = x"
| "Join (x # y # zs) sep = x @ sep @ Join (y # zs) sep"

text \<open>
  \<open>os.LookupEnv(key)\<close> over the entries \<open>name=value\<close> of the process environment, as
  \<open>syscall.Getenv\<close> finds them: the empty key is never found, an entry is cut at its
  first \<open>=\<close>, an entry with no \<open>=\<close> is skipped, and the first entry of a name wins.
\<close>

fun lookup_entries :: "string list \<Rightarrow> string \<Rightarrow> string option" where
  "lookup_entries [] key = None"
| "lookup_entries (s # envs) key =
     (case Index s (CHR ''='') of
        None \<Rightarrow> lookup_entries envs key
      | Some j \<Rightarrow> if take j s = key then Some (drop (j + 1) s) else lookup_entries envs key)"

definition LookupEnv :: "string list \<Rightarrow> string \<Rightarrow> string option" where
  "LookupEnv envs key = (if key = [] then None else lookup_entries envs key)"

text \<open>\<open>os.Getenv(key)\<close>: the empty string when the variable is not set.\<close>

definition Getenv :: "string list \<Rightarrow> string \<Rightarrow> string" where
  "Getenv envs key = (case LookupEnv envs key of None \<Rightarrow> [] | Some v \<Rightarrow> v)"

text \<open>\<open>net.JoinHostPort(host, port)\<close>: a host with a colon is taken as an IPv6 literal.\<close>

definition JoinHostPort :: "string \<Rightarrow> string \<Rightarrow> string" where
  "JoinHostPort host p =
     (if Index host (CHR '':'') \<noteq> None then ''['' @ host @ '']:'' @ p else host @ '':'' @ p)"

text \<open>
  The verb \<open>%q\<close> of package fmt on a string is \<open>strconv.Quote\<close>: the string between
  double quotes, read rune by rune (a rune is an \<open>int32\<close>, here an \<open>int\<close>). The pieces
  follow package strconv and package unicode/utf8 of current Go.
\<close>

definition lowerhex :: string where
  "lowerhex = ''0123456789abcdef''"

definition backslash :: char where
  "backslash = CHR 0x5C"

definition dquote :: char where
  "dquote = CHR 0x22"

text \<open>\<open>utf8.RuneError\<close>.\<close>

definition RuneError :: int where
  "RuneError = 0xFFFD"

text \<open>
  \<open>utf8.DecodeRuneInString(s)\<close>: the rune at the head of \<open>s\<close> and the number of bytes it
  takes. The first byte gives the length of the encoding and the range its second byte
  must lie in (the table \<open>first\<close> and \<open>acceptRanges\<close> of the source); every byte after the
  second must lie in \<open>0x80..0xBF\<close>. Whatever is no well-formed encoding is
  \<open>(RuneError, 1)\<close>.
\<close>

definition DecodeRuneInString :: "string \<Rightarrow> int \<times> nat" where
  "DecodeRuneInString s =
     (if s = [] then (RuneError, 0)
      else
        (let s0 = (of_char (s ! 0) :: int) in
         if s0 < 0x80 then (s0, 1)
         else if s0 < 0xC2 \<or> 0xF4 < s0 then (RuneError, 1)
         else
           (let sz = (if s0 < 0xE0 then 2 else if s0 < 0xF0 then 3 else 4 :: nat);
                lo = (if s0 = 0xE0 then 0xA0 else if s0 = 0xF0 then 0x90 else 0x80 :: int);
                hi = (if s0 = 0xED then 0x9F else if s0 = 0xF4 then 0x8F else 0xBF :: int)
            in if length s < sz then (RuneError, 1)
               else
                 (let s1 = (of_char (s ! 1) :: int) in
                  if s1 < lo \<or> hi < s1 then (RuneError, 1)
                  else if sz \<le> 2 then ((s0 mod 32) * 64 + s1 mod 64, 2)
                  else
                    (let s2 = (of_char (s ! 2) :: int) in
                     if s2 < 0x80 \<or> 0xBF < s2 then (RuneError, 1)
                     else if sz \<le> 3 then ((s0 mod 16) * 4096 + (s1 mod 64) * 64 + s2 mod 64, 3)
                     else
                       (let s3 = (of_char (s ! 3) :: int) in
                        if s3 < 0x80 \<or> 0xBF < s3 then (RuneError, 1)
                        else ((s0 mod 8) * 262144 + (s1 mod 64) * 4096 + (s2 mod 64) * 64
                                + s3 mod 64, 4)))))))"

text \<open>
  \<open>utf8.EncodeRune(p, r)\<close>: the bytes written. A rune that is no valid one (negative,
  above \<open>0x10FFFF\<close>, or a surrogate) is written as \<open>RuneError\<close>.
\<close>

definition EncodeRune :: "int \<Rightarrow> string" where
  "EncodeRune r =
     (if 0 \<le> r \<and> r \<le> 0x7F then [char_of r]
      else if 0 \<le> r \<and> r \<le> 0x7FF then [char_of (0xC0 + r div 64), char_of (0x80 + r mod 64)]
      else
        (let r = (if r < 0 \<or> 0x10FFFF < r \<or> (0xD800 \<le> r \<and> r \<le> 0xDFFF) then RuneError else r) in
         if r \<le> 0xFFFF then
           [char_of (0xE0 + r div 4096), char_of (0x80 + (r div 64) mod 64), char_of (0x80 + r mod 64)]
         else
           [char_of (0xF0 + r div 262144), char_of (0x80 + (r div 4096) mod 64),
            char_of (0x80 + (r div 64) mod 64), char_of (0x80 + r mod 64)]))"

text \<open>
  \<open>strconv.IsPrint(r)\<close>: up to \<open>0xFF\<close> the source decides by comparisons; above, it
  searches tables of the Go library, which are the parameter \<open>tables\<close> here.
\<close>

definition IsPrint :: "(int \<Rightarrow> bool) \<Rightarrow> int \<Rightarrow> bool" where
  "IsPrint tables r =
     (if r \<le> 0xFF then
        (if 0x20 \<le> r \<and> r \<le> 0x7E then True
         else if 0xA1 \<le> r \<and> r \<le> 0xFF then r \<noteq> 0xAD
         else False)
      else tables r)"

text \<open>The \<open>n\<close> hexadecimal digits of \<open>r\<close> from \<open>r>>(4*(n-1))&0xF\<close> down to \<open>r&0xF\<close>.\<close>

definition hex_digits :: "nat \<Rightarrow> int \<Rightarrow> string" where
  "hex_digits n r = map (\<lambda>k. lowerhex ! nat ((r div 16 ^ k) mod 16)) (rev [0 ..< n])"

text \<open>
  \<open>appendEscapedRune(buf, r, '"', false, false)\<close>: what is appended for the rune \<open>r\<close>.
  The double quote and the backslash are backslashed; a printable rune is written in
  UTF-8; the others are escaped (\<open>0x7f\<close> as \<open>\x7f\<close>, where older versions of Go
  wrote \<open>\u007f\<close>).
\<close>

definition appendEscapedRune :: "(int \<Rightarrow> bool) \<Rightarrow> int \<Rightarrow> string" where
  "appendEscapedRune tables r =
     (if r = of_char dquote \<or> r = of_char backslash then [backslash, char_of r]
      else if IsPrint tables r then EncodeRune r
      else if r = 0x07 then [backslash, CHR ''a'']
      else if r = 0x08 then [backslash, CHR ''b'']
      else if r = 0x0C then [backslash, CHR ''f'']
      else if r = 0x0A then [backslash, CHR ''n'']
      else if r = 0x0D then [backslash, CHR ''r'']
      else if r = 0x09 then [backslash, CHR ''t'']
      else if r = 0x0B then [backslash, CHR ''v'']
      else if r < 0x20 \<or> r = 0x7F then backslash # CHR ''x'' # hex_digits 2 r
      else if r < 0 \<or> 0x10FFFF < r \<or> (0xD800 \<le> r \<and> r \<le> 0xDFFF) then
        backslash # CHR ''u'' # hex_digits 4 RuneError
      else if r < 0x10000 then backslash # CHR ''u'' # hex_digits 4 r
      else backslash # CHR ''U'' # hex_digits 8 r)"

text \<open>
  The loop of \<open>appendQuotedWith\<close>: a byte below \<open>0x80\<close> is its own rune; otherwise the
  rune is decoded, and a byte that starts no well-formed encoding is written as \<open>\xNN\<close>.
  The loop goes on after the bytes of the rune (\<open>s = s[width:]\<close>).
\<close>

fun appendQuoted :: "(int \<Rightarrow> bool) \<Rightarrow> string \<Rightarrow> string" where
  "appendQuoted tables [] = []"
| "appendQuoted tables (c # cs) =
     (case (if (of_char c :: int) \<ge> 0x80 then DecodeRuneInString (c # cs) else (of_char c, 1)) of
        (r, width) \<Rightarrow>
          (if width = 1 \<and> r = RuneError then backslash # CHR ''x'' # hex_digits 2 (of_char c)
           else appendEscapedRune tables r)
          @ appendQuoted tables (drop (width - 1) cs))"

definition Quote :: "(int \<Rightarrow> bool) \<Rightarrow> string \<Rightarrow> string" where
  "Quote tables s = dquote # appendQuoted tables s @ [dquote]"

text \<open>
  \<open>os.Exit(code)\<close> ends the process. The status that the parent of the process reads is
  the low 8 bits of \<open>code\<close>.
\<close>

definition os_Exit :: "int \<Rightarrow> int" where
  "os_Exit code = code mod 256"

subsection \<open>Control flow and effects\<close>

text \<open>
  How a call ends: the function returns (\<open>Return\<close>), or the process exits inside it
  (\<open>Exit\<close>: \<open>os.Exit\<close>, which \<open>log.Fatal\<close> and \<open>log.Fatalf\<close> call with status 1, and
  which runs no deferred call).
\<close>

datatype 'r outcome = Return 'r | Exit int

text \<open>How a block inside a function ends: control goes on with a value, or the call ends.\<close>

datatype ('r, 'a) flow = Next 'a | Done "'r outcome"

text \<open>
  What the client does to the outside, in order. \<open>EvSet\<close> is the deferred \<open>t.Set(r)\<close> of
  \<open>shell\<close>, where \<open>r\<close> is the terminal mode that \<open>t.Raw()\<close> replaced; \<open>EvSetTermios\<close> is
  \<open>termios.SetTermios(0, t)\<close> of \<open>main\<close>, where \<open>t\<close> is the mode \<open>main\<close> read first. Both
  put the local terminal back into the mode it had before the session.
\<close>

datatype event =
    EvListen string string
  | EvServe string string nonce nat
  | EvRaw
  | EvNewSession
  | EvSetenv string string
  | EvSetenvWarning string
  | EvRequestPty
  | EvStart string
  | EvGoStdin
  | EvGoCopyStdout
  | EvGoCopyStderr
  | EvWait
  | EvSessionClose
  | EvSet
  | EvSetTermios
  | EvLog string
  | EvFatal string

text \<open>The calls a function has deferred run when it returns, not when the process exits.\<close>

definition deferred :: "'r outcome \<Rightarrow> event list \<Rightarrow> event list" where
  "deferred r evs = (case r of Return _ \<Rightarrow> evs | Exit _ \<Rightarrow> [])"

subsection \<open>The outside world\<close>

text \<open>The command-line flags the client reads (\<open>*bin\<close>, \<open>*hostKeyFile\<close>, ...).\<close>

record flags =
  bin :: string
  hostKeyFile :: string
  keyFile :: string
  network :: string
  port :: string
  root :: string
  timeout9P :: string

text \<open>
  Keys as the ssh library sees them: a public key is its wire encoding
  (\<open>key.Marshal()\<close>), which is all that \<open>ssh.FixedHostKey\<close> compares.
\<close>

type_synonym PublicKey = string
type_synonym Signer = string

text \<open>
  The local system: the environment (\<open>os.Environ()\<close>), the files (\<open>ioutil.ReadFile\<close>),
  the parsers of the ssh library and of package time, \<open>exec.LookPath\<close> and the random
  source. A failure is the message of its error. \<open>printable\<close> stands for the tables of
  \<open>strconv.IsPrint\<close> for the runes above \<open>0xFF\<close>.
\<close>

record sys =
  environ :: "string list"
  ReadFile :: "string \<Rightarrow> string + string"
  ParsePrivateKey :: "string \<Rightarrow> string + Signer"
  ParsePublicKey :: "string \<Rightarrow> string + PublicKey"
  ParseAuthorizedKey :: "string \<Rightarrow> string + PublicKey"
  ParseDuration :: "string \<Rightarrow> string + nat"
  LookPath :: "string \<Rightarrow> string + string"
  rand_Read :: rand_outcome
  printable :: "int \<Rightarrow> bool"

text \<open>
  \<open>ssh.InsecureIgnoreHostKey()\<close> accepts every host key; \<open>ssh.FixedHostKey(pk)\<close> accepts
  the key whose encoding equals that of \<open>pk\<close> and answers every other with an error.
\<close>

datatype HostKeyCallback = InsecureIgnoreHostKey | FixedHostKey PublicKey

fun check_host_key :: "HostKeyCallback \<Rightarrow> PublicKey \<Rightarrow> string option" where
  "check_host_key InsecureIgnoreHostKey key = None"
| "check_host_key (FixedHostKey pk) key =
     (if key = pk then None else Some ''ssh: host key mismatch'')"

record ClientConfig =
  User :: string
  Auth :: Signer
  HostKey :: HostKeyCallback

text \<open>
  The remote side, through the ssh library: the outcome of each call the client makes on
  the connection and on the session. Only \<open>session.Wait()\<close> can answer with an
  \<open>*ssh.ExitError\<close>; the failure of any other call is the message of its error.
  \<open>Listen\<close> is the outcome of \<open>cl.Listen("tcp", "127.0.0.1:0")\<close>: the address of the
  listener, as \<open>l.Addr().String()\<close> prints it.
\<close>

record remote =
  Dial :: "string \<Rightarrow> string \<Rightarrow> ClientConfig \<Rightarrow> string option"
  Listen :: "string + string"
  NewSession :: "string option"
  Setenv :: "string \<Rightarrow> string \<Rightarrow> string option"
  RequestPty :: "string option"
  StdinPipe :: "string option"
  StdoutPipe :: "string option"
  StderrPipe :: "string option"
  Start :: "string \<Rightarrow> string option"
  Wait :: "error option"

text \<open>The local terminal, through package termios.\<close>

record tty =
  termios_New :: "string option"
  Raw :: "string option"
  GetTermios :: "string option"
  SetTermios :: "string option"

text \<open>\<open>err.Error()\<close>, which the verb \<open>%v\<close> prints.\<close>

fun Error :: "error \<Rightarrow> string" where
  "Error (ExitError status msg) = msg"
| "Error (Err msg) = msg"

subsection \<open>\<open>config\<close> and \<open>dial\<close>\<close>

text \<open>
  \<open>config(kf)\<close>: the callback starts as \<open>ssh.InsecureIgnoreHostKey()\<close> and is replaced
  only when the flag \<open>hk\<close> names a file. Each \<open>fmt.Errorf\<close> of the source is an error
  with the same message.
\<close>

definition config :: "flags \<Rightarrow> sys \<Rightarrow> string \<Rightarrow> error + ClientConfig" where
  "config fl sy kf =
     (let cb = InsecureIgnoreHostKey in
      case ReadFile sy kf of
        Inl err \<Rightarrow> Inl (Err (''unable to read private key '' @ kf @ '': '' @ err))
      | Inr key \<Rightarrow>
         (case ParsePrivateKey sy key of
            Inl err \<Rightarrow> Inl (Err (''ParsePrivateKey '' @ kf @ '': '' @ err))
          | Inr signer \<Rightarrow>
             (if hostKeyFile fl \<noteq> [] then
                (case ReadFile sy (hostKeyFile fl) of
                   Inl err \<Rightarrow> Inl (Err (''unable to read host key '' @ hostKeyFile fl @ '': '' @ err))
                 | Inr hk \<Rightarrow>
                    (case (case ParsePublicKey sy hk of
                             Inl err \<Rightarrow> ParseAuthorizedKey sy hk
                           | Inr pk \<Rightarrow> Inr pk) of
                       Inl err \<Rightarrow> Inl (Err (''parse host key '' @ hostKeyFile fl @ '': '' @ err))
                     | Inr pk \<Rightarrow>
                         Inr \<lparr>User = Getenv (environ sy) ''USER'', Auth = signer,
                              HostKey = FixedHostKey pk\<rparr>))
              else
                Inr \<lparr>User = Getenv (environ sy) ''USER'', Auth = signer, HostKey = cb\<rparr>)))"

text \<open>\<open>dial(n, a, config)\<close>: the error of \<open>ssh.Dial\<close> is wrapped in a new one.\<close>

definition dial :: "remote \<Rightarrow> string \<Rightarrow> string \<Rightarrow> ClientConfig \<Rightarrow> error option" where
  "dial rm n a c =
     (case Dial rm n a c of
        Some err \<Rightarrow> Some (Err (''Failed to dial: '' @ err))
      | None \<Rightarrow> None)"

subsection \<open>\<open>env\<close>\<close>

text \<open>
  One turn of the loop of \<open>env\<close>: the entry \<open>v\<close> is cut by
  \<open>strings.SplitN(v, "=", 2)\<close>, a result of one element gets the empty string appended,
  and \<open>s.Setenv(env[0], env[1])\<close> is called.
\<close>

definition env_pair :: "string \<Rightarrow> string \<times> string" where
  "env_pair v =
     (let env = SplitN v (CHR ''='') 2;
          env = (if length env = 1 then env @ [[]] else env)
      in (env ! 0, env ! 1))"

text \<open>
  \<open>env(s, envs...)\<close> over \<open>append(os.Environ(), envs...)\<close>: a failure of \<open>Setenv\<close> is
  logged and the loop goes on.
\<close>

fun env_loop :: "(string \<Rightarrow> string \<Rightarrow> string option) \<Rightarrow> string list \<Rightarrow> event list" where
  "env_loop setenv [] = []"
| "env_loop setenv (v # vs) =
     (case env_pair v of
        (name, val) \<Rightarrow>
          EvSetenv name val
            # (case setenv name val of None \<Rightarrow> [] | Some err \<Rightarrow> [EvSetenvWarning v])
            @ env_loop setenv vs)"

definition env :: "sys \<Rightarrow> remote \<Rightarrow> string list \<Rightarrow> event list" where
  "env sy rm envs = env_loop (Setenv rm) (environ sy @ envs)"

subsection \<open>\<open>stdin\<close>\<close>

text \<open>
  The state of the input relay: the two flags of the source, the bytes written to the
  remote standard input \<open>w\<close> so far, and whether \<open>s.Close()\<close> has been called on the
  session.
\<close>

record relay =
  newLine :: bool
  tilde :: bool
  written :: string
  closed :: bool

text \<open>
  \<open>w.Write(p)\<close>: the writer fails once \<open>cap\<close> bytes have gone through it (\<open>None\<close>: it
  never fails). \<open>None\<close> as a result is the error.
\<close>

definition Write :: "nat option \<Rightarrow> relay \<Rightarrow> string \<Rightarrow> relay option" where
  "Write cap st p =
     (case cap of
        None \<Rightarrow> Some (st\<lparr>written := written st @ p\<rparr>)
      | Some n \<Rightarrow> if length (written st) < n then Some (st\<lparr>written := written st @ p\<rparr>) else None)"

text \<open>
  The body of the loop of \<open>stdin\<close> for the byte \<open>c\<close> just read: the \<open>switch\<close> of the
  source, its cases in the order newline and carriage return, \<open>~\<close>, \<open>.\<close>, default
  (they exclude one another). \<open>Continue\<close> is the next turn of the loop, \<open>Stop\<close> the
  return of \<open>stdin\<close>.
\<close>

datatype step = Continue relay | Stop relay

definition stdin_step :: "nat option \<Rightarrow> relay \<Rightarrow> char \<Rightarrow> step" where
  "stdin_step cap st c =
     (if c = CHR 0x0A \<or> c = CHR 0x0D then
        (let st = st\<lparr>newLine := True\<rparr> in
         case Write cap st [c] of None \<Rightarrow> Stop st | Some st' \<Rightarrow> Continue st')
      else if c = CHR ''~'' then
        (if newLine st then Continue (st\<lparr>newLine := False, tilde := True\<rparr>)
         else case Write cap st ''~'' of None \<Rightarrow> Stop st | Some st' \<Rightarrow> Continue st')
      else if c = CHR ''.'' then
        (if tilde st then Stop (st\<lparr>closed := True\<rparr>)
         else case Write cap st [c] of None \<Rightarrow> Stop st | Some st' \<Rightarrow> Continue st')
      else
        (let st = st\<lparr>newLine := False\<rparr> in
         if tilde st then
           (case Write cap st ''~'' of
              None \<Rightarrow> Stop st
            | Some st1 \<Rightarrow>
               (let st2 = st1\<lparr>tilde := False\<rparr> in
                case Write cap st2 [c] of None \<Rightarrow> Stop st2 | Some st3 \<Rightarrow> Continue st3))
         else case Write cap st [c] of None \<Rightarrow> Stop st | Some st' \<Rightarrow> Continue st'))"

text \<open>
  The loop of \<open>stdin\<close>: \<open>r.Read\<close> delivers the bytes of the input one at a time and fails
  at its end, which ends the loop. The result is the last state and the input not read.
\<close>

fun stdin_loop :: "nat option \<Rightarrow> relay \<Rightarrow> string \<Rightarrow> relay \<times> string" where
  "stdin_loop cap st [] = (st, [])"
| "stdin_loop cap st (c # cs) =
     (case stdin_step cap st c of
        Continue st' \<Rightarrow> stdin_loop cap st' cs
      | Stop st' \<Rightarrow> (st', cs))"

definition relay_init :: relay where
  "relay_init = \<lparr>newLine = False, tilde = False, written = [], closed = False\<rparr>"

definition stdin :: "nat option \<Rightarrow> string \<Rightarrow> relay \<times> string" where
  "stdin cap r = stdin_loop cap relay_init r"

text \<open>The states of the relay as the specification names them.\<close>

definition NORMAL :: "relay \<Rightarrow> bool" where
  "NORMAL st = (\<not> newLine st \<and> \<not> tilde st)"

definition AFTER_NEWLINE :: "relay \<Rightarrow> bool" where
  "AFTER_NEWLINE st = (newLine st \<and> \<not> tilde st)"

definition ESCAPE_ARMED :: "relay \<Rightarrow> bool" where
  "ESCAPE_ARMED st = (\<not> newLine st \<and> tilde st)"

subsection \<open>\<open>shell\<close>\<close>

text \<open>
  \<open>shell\<close> from \<open>env(session, envs...)\<close> to \<open>session.Wait()\<close>, with the session open.
  A failure of \<open>session.RequestPty\<close> is \<open>log.Fatal\<close>.
\<close>

definition shell_session :: "sys \<Rightarrow> remote \<Rightarrow> string \<Rightarrow> string list \<Rightarrow> event list \<times> error option outcome" where
  "shell_session sy rm cmd envs =
     (let evs = env sy rm envs in
      case RequestPty rm of
        Some err \<Rightarrow> (evs @ [EvFatal (''request for pseudo terminal failed: '' @ err)], Exit 1)
      | None \<Rightarrow>
         (case StdinPipe rm of
            Some err \<Rightarrow> (evs @ [EvRequestPty], Return (Some (Err err)))
          | None \<Rightarrow>
             (case StdoutPipe rm of
                Some err \<Rightarrow> (evs @ [EvRequestPty], Return (Some (Err err)))
              | None \<Rightarrow>
                 (case StderrPipe rm of
                    Some err \<Rightarrow> (evs @ [EvRequestPty], Return (Some (Err err)))
                  | None \<Rightarrow>
                     (case Start rm cmd of
                        Some err \<Rightarrow>
                          (evs @ [EvRequestPty],
                           Return (Some (Err (''Failed to run '' @ cmd @ '': '' @ err))))
                      | None \<Rightarrow>
                          (evs @ [EvRequestPty, EvStart cmd, EvGoStdin, EvGoCopyStdout,
                                  EvGoCopyStderr, EvWait],
                           Return (Wait rm)))))))"

text \<open>
  \<open>shell\<close> with the terminal in raw mode, \<open>t.Set(r)\<close> deferred: the lookup of the binary
  when the flag \<open>bin\<close> is empty, and the session, whose \<open>Close\<close> is deferred.
\<close>

definition shell_raw :: "flags \<Rightarrow> sys \<Rightarrow> remote \<Rightarrow> string \<Rightarrow> string list \<Rightarrow> event list \<times> error option outcome" where
  "shell_raw fl sy rm cmd envs =
     (case (if bin fl = [] then LookPath sy ''cpu'' else Inr (bin fl)) of
        Inl err \<Rightarrow> ([], Return (Some (Err err)))
      | Inr b \<Rightarrow>
         (case NewSession rm of
            Some err \<Rightarrow> ([], Return (Some (Err err)))
          | None \<Rightarrow>
             (case shell_session sy rm cmd envs of
                (evs, r) \<Rightarrow> (EvNewSession # evs @ deferred r [EvSessionClose], r))))"

text \<open>\<open>shell(client, cmd, envs...)\<close>.\<close>

definition shell :: "flags \<Rightarrow> sys \<Rightarrow> remote \<Rightarrow> tty \<Rightarrow> string \<Rightarrow> string list \<Rightarrow> event list \<times> error option outcome" where
  "shell fl sy rm tt cmd envs =
     (case termios_New tt of
        Some err \<Rightarrow> ([], Return (Some (Err err)))
      | None \<Rightarrow>
         (case Raw tt of
            Some err \<Rightarrow> ([], Return (Some (Err err)))
          | None \<Rightarrow>
             (case shell_raw fl sy rm cmd envs of
                (evs, r) \<Rightarrow> (EvRaw # evs @ deferred r [EvSet], r))))"

subsection \<open>\<open>runClient\<close>\<close>

text \<open>
  \<open>wantNameSpace\<close>: true unless \<open>CPU_NAMESPACE\<close> is in the environment with the empty
  value.
\<close>

definition wantNameSpace :: "sys \<Rightarrow> bool" where
  "wantNameSpace sy =
     (case LookupEnv (environ sy) ''CPU_NAMESPACE'' of
        Some n \<Rightarrow> \<not> (length n = 0)
      | None \<Rightarrow> True)"

text \<open>
  The port of the listener: the address is cut at its colons, an empty result is an
  error, and the port is the last piece.
\<close>

definition listener_port :: "string \<Rightarrow> error + string" where
  "listener_port addr =
     (let ap = Split addr (CHR '':'') in
      if length ap = 0 then Inl (Err (''Can't find a port number in '' @ addr))
      else Inr (ap ! (length ap - 1)))"

text \<open>
  The block \<open>if wantNameSpace { ... }\<close> of \<open>runClient\<close>, from the command \<open>cmd\<close> built so
  far: it goes on with the command and the environment for \<open>shell\<close>, returns an error, or
  exits in \<open>log.Fatalf\<close> when no nonce can be had.
\<close>

definition namespace :: "flags \<Rightarrow> sys \<Rightarrow> remote \<Rightarrow> string \<Rightarrow> event list \<times> (error option, string \<times> string list) flow" where
  "namespace fl sy rm cmd =
     (case ParseDuration sy (timeout9P fl) of
        Inl err \<Rightarrow> ([], Done (Return (Some (Err err))))
      | Inr deadline \<Rightarrow>
         (case Listen rm of
            Inl err \<Rightarrow>
              ([EvListen ''tcp'' ''127.0.0.1:0''], Done (Return (Some (Err (''First cl.Listen '' @ err)))))
          | Inr addr \<Rightarrow>
             (case listener_port addr of
                Inl err \<Rightarrow> ([EvListen ''tcp'' ''127.0.0.1:0''], Done (Return (Some err)))
              | Inr port9p \<Rightarrow>
                 (case generateNonce (rand_Read sy) of
                    Inl err \<Rightarrow>
                      ([EvListen ''tcp'' ''127.0.0.1:0'', EvFatal (''Getting nonce: '' @ Error err)],
                       Done (Exit 1))
                  | Inr nonce \<Rightarrow>
                      ([EvListen ''tcp'' ''127.0.0.1:0'', EvServe addr (root fl) nonce deadline],
                       Next (cmd @ '' -port9p '' @ port9p,
                             [''CPUNONCE='' @ nonce_String nonce]))))))"

text \<open>The command as \<open>runClient\<close> first builds it: \<open>fmt.Sprintf("%v -remote -bin %v", *bin, *bin)\<close>.\<close>

definition base_cmd :: "flags \<Rightarrow> string" where
  "base_cmd fl = bin fl @ '' -remote -bin '' @ bin fl"

text \<open>
  \<open>runClient\<close> from \<open>wantNameSpace := true\<close> to the end of the block
  \<open>if wantNameSpace { ... }\<close>: without a namespace the command stays as it was built and
  the environment added is empty.
\<close>

definition tunnel :: "flags \<Rightarrow> sys \<Rightarrow> remote \<Rightarrow> event list \<times> (error option, string \<times> string list) flow" where
  "tunnel fl sy rm =
     (if wantNameSpace sy then namespace fl sy rm (base_cmd fl) else ([], Next (base_cmd fl, [])))"

text \<open>
  \<open>runClient(host, a)\<close>: the configuration, the connection, the tunnel, and \<open>shell\<close> with
  the command \<open>fmt.Sprintf("%s %q", cmd, a)\<close>.
\<close>

definition runClient :: "flags \<Rightarrow> sys \<Rightarrow> remote \<Rightarrow> tty \<Rightarrow> string \<Rightarrow> string \<Rightarrow> event list \<times> error option outcome" where
  "runClient fl sy rm tt host a =
     (case config fl sy (keyFile fl) of
        Inl err \<Rightarrow> ([], Return (Some err))
      | Inr c \<Rightarrow>
         (case dial rm (network fl) (JoinHostPort host (port fl)) c of
            Some err \<Rightarrow> ([], Return (Some err))
          | None \<Rightarrow>
             (case tunnel fl sy rm of
                (evs, Done r) \<Rightarrow> (evs, r)
              | (evs, Next (cmd, envs)) \<Rightarrow>
                 (case shell fl sy rm tt (cmd @ '' '' @ Quote (printable sy) a) envs of
                    (evs', r) \<Rightarrow> (evs @ evs', r)))))"

subsection \<open>\<open>main\<close>\<close>

text \<open>
  \<open>main\<close>, from the arguments that are no flags: the events and the exit status of the
  process, as its parent reads it. With no argument \<open>usage\<close> ends in \<open>log.Fatalf\<close> (the event has the first line
  of its message, without the list of the flags). An error of \<open>runClient\<close> defers
  \<open>os.Exit(e)\<close>, which so runs after \<open>termios.SetTermios\<close>; when \<open>main\<close> returns with
  nothing deferred the status is 0. \<open>restore\<close> is the call of \<open>termios.SetTermios(0, t)\<close>,
  whose error is only logged.
\<close>

text \<open>
  The command for the remote side: the arguments after the host, joined by spaces, or
  the value of \<open>SHELL\<close> when that is empty.
\<close>

definition remote_arg :: "sys \<Rightarrow> string list \<Rightarrow> string" where
  "remote_arg sy args =
     (let a = Join (drop 1 args) '' '' in
      if a = [] then Getenv (environ sy) ''SHELL'' else a)"

definition restore :: "tty \<Rightarrow> event list" where
  "restore tt = EvSetTermios # (case SetTermios tt of None \<Rightarrow> [] | Some err \<Rightarrow> [EvLog err])"

definition main :: "flags \<Rightarrow> sys \<Rightarrow> remote \<Rightarrow> tty \<Rightarrow> string list \<Rightarrow> event list \<times> int" where
  "main fl sy rm tt args =
     (if length args = 0 then
        ([EvFatal ''Usage: cpu [options] host [shell command]:''], os_Exit 1)
      else
        (let host = args ! 0;
             a = remote_arg sy args
         in case GetTermios tt of
              Some err \<Rightarrow> ([EvFatal ''Getting Termios''], os_Exit 1)
            | None \<Rightarrow>
               (case runClient fl sy rm tt host a of
                  (evs, Exit n) \<Rightarrow> (evs, os_Exit n)
                | (evs, Return None) \<Rightarrow> (evs @ restore tt, 0)
                | (evs, Return (Some err)) \<Rightarrow>
                    (evs @ [EvLog (''SSH error '' @ Error err)] @ restore tt,
                     os_Exit (case err of ExitError status msg \<Rightarrow> status | Err msg \<Rightarrow> 1)))))"

subsection \<open>Reading a trace\<close>

text \<open>The two events that put the local terminal back into its mode.\<close>

fun is_restore :: "event \<Rightarrow> bool" where
  "is_restore EvSet = True"
| "is_restore EvSetTermios = True"
| "is_restore _ = False"

text \<open>An exit in \<open>log.Fatal\<close> or \<open>log.Fatalf\<close>.\<close>

fun is_fatal :: "event \<Rightarrow> bool" where
  "is_fatal (EvFatal msg) = True"
| "is_fatal _ = False"

text \<open>
  The events that mark the history of the terminal in a session: raw mode, the start of
  the remote command, the wait for its end, the two restorations, and a fatal exit.
\<close>

fun marks :: "event \<Rightarrow> bool" where
  "marks EvRaw = True"
| "marks (EvStart cmd) = True"
| "marks EvWait = True"
| "marks EvSet = True"
| "marks EvSetTermios = True"
| "marks (EvFatal msg) = True"
| "marks _ = False"

text \<open>The events of the reverse tunnel: the request of a listener, and its server.\<close>

fun is_tunnel :: "event \<Rightarrow> bool" where
  "is_tunnel (EvListen n a) = True"
| "is_tunnel (EvServe a r n d) = True"
| "is_tunnel _ = False"

subsection \<open>A session in which every call succeeds\<close>

text \<open>
  A concrete world, for running the client: the default flags with the binary \<open>cpud\<close>,
  a key file that reads and parses, a remote side that grants the listener
  \<open>127.0.0.1:40000\<close> and on which every call succeeds, and a terminal.
\<close>

definition ok_flags :: flags where
  "ok_flags =
     \<lparr>bin = ''cpud'', hostKeyFile = [], keyFile = ''/home/u/.ssh/cpu_rsa'', network = ''tcp'',
      port = ''23'', root = ''/'', timeout9P = ''100ms''\<rparr>"

definition ok_sys :: sys where
  "ok_sys =
     \<lparr>environ = [''USER=u'', ''SHELL=/bin/bash''],
      ReadFile = (\<lambda>p. if p = ''/home/u/.ssh/cpu_rsa'' then Inr ''PRIVATE KEY''
                     else if p = ''/etc/host.pub'' then Inr ''ssh-rsa AAAA''
                     else Inl ''no such file or directory''),
      ParsePrivateKey = (\<lambda>k. if k = ''PRIVATE KEY'' then Inr ''signer'' else Inl ''ssh: no key found''),
      ParsePublicKey = (\<lambda>k. Inl ''ssh: short read''),
      ParseAuthorizedKey = (\<lambda>k. if k = ''ssh-rsa AAAA'' then Inr ''AAAA'' else Inl ''ssh: no key found''),
      ParseDuration = (\<lambda>d. if d = ''100ms'' then Inr 100 else Inl ''time: invalid duration''),
      LookPath = (\<lambda>f. Inl ''executable file not found in $PATH''),
      rand_Read = Inr (\<lambda>i. of_nat (17 * i)),
      printable = (\<lambda>r. False)\<rparr>"

definition ok_remote :: remote where
  "ok_remote =
     \<lparr>Dial = (\<lambda>n a c. None), Listen = Inr ''127.0.0.1:40000'', NewSession = None,
      Setenv = (\<lambda>name val. None), RequestPty = None, StdinPipe = None, StdoutPipe = None,
      StderrPipe = None, Start = (\<lambda>cmd. None), Wait = None\<rparr>"

definition ok_tty :: tty where
  "ok_tty = \<lparr>termios_New = None, Raw = None, GetTermios = None, SetTermios = None\<rparr>"

section \<open>Properties\<close>

subsection \<open>Hexadecimal printing\<close>

lemma high_nibble_lt_16: "unat (drop_bit 4 (c::byte)) < 16"
proof -
  have "unat c < 256"
    using unsigned_less [of c] by simp
  then show ?thesis
    by (simp add: drop_bit_eq_div unat_div)
qed

lemma low_nibble_lt_16: "unat ((c::byte) AND 0xF) < 16"
proof -
  have "unat (c AND 0xF) \<le> unat (0xF :: byte)"
    by (rule word_and_le1 [THEN word_le_nat_alt [THEN iffD1]])
  then show ?thesis by simp
qed

lemma ldigits_nth_hex: "i < 16 \<Longrightarrow> ldigits ! i \<in> set ''0123456789abcdef''"
proof -
  assume "i < 16"
  then have "i \<in> {0, 1, 2, 3, 4, 5, 6, 7, 8, 9, 10, 11, 12, 13, 14, 15}"
    by (simp; arith)
  then show ?thesis
    by (auto simp: ldigits_def)
qed

lemma hex_byte_length: "length (hex_byte c) = 2"
  by (simp add: hex_byte_def)

lemma hex_byte_chars: "set (hex_byte c) \<subseteq> set ''0123456789abcdef''"
  using ldigits_nth_hex [OF high_nibble_lt_16 [of c]] ldigits_nth_hex [OF low_nibble_lt_16 [of c]]
  by (simp add: hex_byte_def)

lemma concat_hex_length: "length (concat (map hex_byte b)) = 2 * length b"
  by (induction b) (simp_all add: hex_byte_length)

lemma concat_hex_chars: "set (concat (map hex_byte b)) \<subseteq> set ''0123456789abcdef''"
  using hex_byte_chars by (induction b) auto

lemma Sprintf_02x_nonempty:
  "b \<noteq> [] \<Longrightarrow> Sprintf_02x b = concat (map hex_byte b)"
  by (cases b) (simp_all add: Sprintf_02x_def)

lemma copy_full: "length src = length dst \<Longrightarrow> copy dst src = src"
  by (simp add: copy_def)

lemma generateNonce_Inr:
  "generateNonce (Inr src) = Inr (concat (map hex_byte (map src [0 ..< 16])))"
proof -
  let ?b = "map src [0 ..< 16]"
  have ne: "?b \<noteq> []"
    by (simp add: upt_rec)
  have "length (Sprintf_02x ?b) = length nonce_zero"
    by (simp only: Sprintf_02x_nonempty [OF ne] concat_hex_length) (simp add: nonce_zero_def nonce_len_def)
  then have "copy nonce_zero (Sprintf_02x ?b) = Sprintf_02x ?b"
    by (rule copy_full)
  then show ?thesis
    by (simp add: generateNonce_def nonce_len_def Sprintf_02x_nonempty [OF ne])
qed

subsection \<open>The secret\<close>

text \<open>
  C1. When the read of the random source succeeds, \<open>generateNonce\<close> returns a nonce and
  no error; the nonce, as a string, has exactly 32 characters, each of them one of
  \<open>0123456789abcdef\<close>. When the read fails, \<open>generateNonce\<close> returns the error of the
  random source, and no nonce.
\<close>

theorem generateNonce_hex:
  "(\<exists>n. generateNonce (Inr src) = Inr n \<and> length (nonce_String n) = 32
        \<and> (\<forall>c \<in> set (nonce_String n). c \<in> set ''0123456789abcdef''))
   \<and> generateNonce (Inl msg) = Inl (Err msg)"
proof -
  let ?n = "concat (map hex_byte (map src [0 ..< 16]))"
  have "length ?n = 32"
    by (simp only: concat_hex_length) simp
  moreover have "\<forall>c \<in> set ?n. c \<in> set ''0123456789abcdef''"
    using concat_hex_chars [of "map src [0 ..< 16]"] by blast
  ultimately show ?thesis
    by (simp add: generateNonce_Inr nonce_String_def) (simp add: generateNonce_def)
qed

theorem generateNonce_hex_witness:
  "generateNonce (Inr (\<lambda>i. of_nat (17 * i))) = Inr ''00112233445566778899aabbccddeeff''
   \<and> length (nonce_String ''00112233445566778899aabbccddeeff'') = 32
   \<and> CHR ''f'' \<in> set (nonce_String ''00112233445566778899aabbccddeeff'')
   \<and> CHR ''f'' \<in> set ''0123456789abcdef''
   \<and> generateNonce (Inl ''EOF'') = Inl (Err ''EOF'')"
proof -
  have run: "generateNonce (Inr (\<lambda>i. of_nat (17 * i))) = Inr ''00112233445566778899aabbccddeeff''"
    by code_simp
  have fails: "generateNonce (Inl ''EOF'') = Inl (Err ''EOF'')"
    using generateNonce_hex [of "\<lambda>i. of_nat (17 * i)" "''EOF''"] by (rule conjunct2)
  have rest: "length (nonce_String ''00112233445566778899aabbccddeeff'') = 32
     \<and> CHR ''f'' \<in> set (nonce_String ''00112233445566778899aabbccddeeff'')
     \<and> CHR ''f'' \<in> set ''0123456789abcdef''"
    by (simp add: nonce_String_def)
  from run rest fails show ?thesis
    by blast
qed

subsection \<open>Cutting strings\<close>

lemma Index_None_iff: "Index s sep = None \<longleftrightarrow> sep \<notin> set s"
  by (induction s) auto

lemma Index_Some_takeWhile:
  "sep \<in> set s \<Longrightarrow> Index s sep = Some (length (takeWhile (\<lambda>c. c \<noteq> sep) s))"
  by (induction s) auto

lemma SplitN_2_no_sep: "sep \<notin> set s \<Longrightarrow> SplitN s sep 2 = [s]"
  by (simp add: SplitN_def numeral_2_eq_2 Index_None_iff [THEN iffD2])

lemma SplitN_2_sep:
  assumes "sep \<in> set s"
  shows "SplitN s sep 2 = [takeWhile (\<lambda>c. c \<noteq> sep) s, tl (dropWhile (\<lambda>c. c \<noteq> sep) s)]"
proof -
  let ?m = "length (takeWhile (\<lambda>c. c \<noteq> sep) s)"
  have "take ?m s = takeWhile (\<lambda>c. c \<noteq> sep) s"
    by (simp add: takeWhile_eq_take [symmetric])
  moreover have "drop (?m + 1) s = tl (dropWhile (\<lambda>c. c \<noteq> sep) s)"
    by (simp add: dropWhile_eq_drop drop_Suc tl_drop)
  ultimately show ?thesis
    using Index_Some_takeWhile [OF assms]
    by (simp add: SplitN_def numeral_2_eq_2 del: drop_Suc_Cons)
qed

lemma genSplit_nonempty: "genSplit s sep k \<noteq> []"
  by (cases k) (simp_all split: option.splits)

lemma Split_no_sep:
  assumes "sep \<notin> set s"
  shows "Split s sep = [s]"
proof -
  have "filter (\<lambda>c. c = sep) s = []"
    using assms by (induction s) auto
  then show ?thesis
    by (simp add: Split_def Count_def)
qed

subsection \<open>The environment sent to the remote side\<close>

lemma env_loop_calls:
  "[(n, v). EvSetenv n v \<leftarrow> env_loop setenv vs] = map env_pair vs"
  by (induction vs) (auto split: prod.splits option.splits)

text \<open>
  C10. \<open>env\<close> cuts every entry at its first \<open>=\<close> only. For an entry with an \<open>=\<close>, the
  name is what stands before the first \<open>=\<close> and the value is all that follows it, further
  \<open>=\<close> included: name, \<open>=\<close> and value make up the entry again. An entry with no \<open>=\<close> is
  set under its whole text with the empty string as its value. The calls of \<open>Setenv\<close> are
  these pairs, one for each entry of the local environment followed by the entries added,
  in that order, whether or not a call fails.
\<close>

theorem env_split_first_equals:
  "(CHR ''='' \<in> set v \<longrightarrow>
      env_pair v = (takeWhile (\<lambda>c. c \<noteq> CHR ''='') v, tl (dropWhile (\<lambda>c. c \<noteq> CHR ''='') v))
      \<and> fst (env_pair v) @ ''='' @ snd (env_pair v) = v)
   \<and> (CHR ''='' \<notin> set v \<longrightarrow> env_pair v = (v, []))
   \<and> [(n, x). EvSetenv n x \<leftarrow> env sy rm envs] = map env_pair (environ sy @ envs)"
proof (intro conjI impI)
  assume eq: "CHR ''='' \<in> set v"
  then show p: "env_pair v = (takeWhile (\<lambda>c. c \<noteq> CHR ''='') v, tl (dropWhile (\<lambda>c. c \<noteq> CHR ''='') v))"
    by (simp add: env_pair_def SplitN_2_sep)
  from eq have "dropWhile (\<lambda>c. c \<noteq> CHR ''='') v \<noteq> []"
    by simp
  moreover have "hd (dropWhile (\<lambda>c. c \<noteq> CHR ''='') v) = CHR ''=''"
    using eq hd_dropWhile [of "\<lambda>c. c \<noteq> CHR ''=''" v] by simp
  ultimately have "dropWhile (\<lambda>c. c \<noteq> CHR ''='') v = CHR ''='' # tl (dropWhile (\<lambda>c. c \<noteq> CHR ''='') v)"
    by (metis list.collapse)
  then have "takeWhile (\<lambda>c. c \<noteq> CHR ''='') v @ ''='' @ tl (dropWhile (\<lambda>c. c \<noteq> CHR ''='') v) = v"
    using takeWhile_dropWhile_id [of "\<lambda>c. c \<noteq> CHR ''=''" v] by simp
  then show "fst (env_pair v) @ ''='' @ snd (env_pair v) = v"
    by (simp add: p)
next
  assume "CHR ''='' \<notin> set v"
  then show "env_pair v = (v, [])"
    by (simp add: env_pair_def SplitN_2_no_sep)
next
  show "[(n, x). EvSetenv n x \<leftarrow> env sy rm envs] = map env_pair (environ sy @ envs)"
    by (simp only: env_def env_loop_calls)
qed

theorem env_split_first_equals_witness:
  "CHR ''='' \<in> set ''A=b=c'' \<and> env_pair ''A=b=c'' = (''A'', ''b=c'')
   \<and> CHR ''='' \<notin> set ''NOEQ'' \<and> env_pair ''NOEQ'' = (''NOEQ'', [])"
  using env_split_first_equals [of "''A=b=c''"] env_split_first_equals [of "''NOEQ''"]
  by simp

subsection \<open>The input relay\<close>

text \<open>
  C7. On the input \<open>a\<close>, newline, \<open>~\<close>, \<open>.\<close>, \<open>b\<close> the relay writes \<open>a\<close> and the newline to
  the remote standard input and nothing else: the \<open>~\<close> and the \<open>.\<close> are not written, the
  session is closed (which closes the remote standard input with it), and \<open>stdin\<close>
  returns with \<open>b\<close> still unread. In any state with the escape armed, a \<open>.\<close> closes the
  session and ends the relay without a write.
\<close>

theorem stdin_escape_dot:
  "stdin None [CHR ''a'', CHR 0x0A, CHR ''~'', CHR ''.'', CHR ''b'']
     = (\<lparr>newLine = False, tilde = True, written = [CHR ''a'', CHR 0x0A], closed = True\<rparr>, ''b'')
   \<and> stdin_step cap (st\<lparr>tilde := True\<rparr>) (CHR ''.'') = Stop (st\<lparr>tilde := True, closed := True\<rparr>)"
  by (simp add: stdin_def relay_init_def stdin_step_def Write_def)

text \<open>
  With the escape armed, a byte that is none of \<open>.\<close>, \<open>~\<close>, newline and carriage return
  writes the \<open>~\<close> held back and then the byte, and leaves the relay in \<open>NORMAL\<close>; and the
  input \<open>a\<close>, newline, \<open>~\<close>, \<open>~\<close>, \<open>b\<close> is written as it is.
\<close>

lemma stdin_armed_other:
  "ESCAPE_ARMED st \<Longrightarrow> c \<notin> {CHR ''.'', CHR ''~'', CHR 0x0A, CHR 0x0D} \<Longrightarrow>
     stdin_step None st c = Continue (st\<lparr>written := written st @ [CHR ''~'', c], tilde := False\<rparr>)
     \<and> NORMAL (st\<lparr>written := written st @ [CHR ''~'', c], tilde := False\<rparr>)"
  by (simp add: stdin_step_def Write_def ESCAPE_ARMED_def NORMAL_def)

lemma stdin_tilde_tilde:
  "stdin None [CHR ''a'', CHR 0x0A, CHR ''~'', CHR ''~'', CHR ''b'']
     = (\<lparr>newLine = False, tilde = False,
         written = [CHR ''a'', CHR 0x0A, CHR ''~'', CHR ''~'', CHR ''b''], closed = False\<rparr>, [])"
  by (simp add: stdin_def relay_init_def stdin_step_def Write_def)

text \<open>
  C2. The specification: with the escape armed, every byte but \<open>.\<close> writes \<open>~\<close> and then the byte,
  and leaves the relay in \<open>NORMAL\<close>. The code does so in the default case of its switch
  only. With the escape armed, a \<open>~\<close> writes one \<open>~\<close> and leaves the escape armed, and a
  newline writes the newline alone and leaves the \<open>~\<close> held back. So the input newline,
  \<open>~\<close>, newline, \<open>x\<close> reaches the remote side as newline, newline, \<open>~\<close>, \<open>x\<close>; and on the
  input newline, \<open>~\<close>, \<open>~\<close>, \<open>.\<close>, \<open>x\<close> the relay writes newline and one \<open>~\<close>, then closes
  the session at the \<open>.\<close>.
\<close>

theorem stdin_armed_tilde_newline:
  "stdin None [CHR 0x0A, CHR ''~'', CHR 0x0A, CHR ''x'']
     = (\<lparr>newLine = False, tilde = False,
         written = [CHR 0x0A, CHR 0x0A, CHR ''~'', CHR ''x''], closed = False\<rparr>, [])
   \<and> stdin None [CHR 0x0A, CHR ''~'', CHR ''~'', CHR ''.'', CHR ''x'']
     = (\<lparr>newLine = False, tilde = True, written = [CHR 0x0A, CHR ''~''], closed = True\<rparr>, ''x'')
   \<and> stdin_step None \<lparr>newLine = False, tilde = True, written = ws, closed = False\<rparr> (CHR ''~'')
     = Continue \<lparr>newLine = False, tilde = True, written = ws @ ''~'', closed = False\<rparr>
   \<and> stdin_step None \<lparr>newLine = False, tilde = True, written = ws, closed = False\<rparr> (CHR 0x0A)
     = Continue \<lparr>newLine = True, tilde = True, written = ws @ [CHR 0x0A], closed = False\<rparr>"
  by (simp add: stdin_def relay_init_def stdin_step_def Write_def)

subsection \<open>The port of the listener\<close>

lemma listener_port_no_colon:
  "CHR '':'' \<notin> set addr \<Longrightarrow> listener_port addr = Inr addr"
  by (simp add: listener_port_def Split_no_sep)










subsection \<open>The configuration of the client\<close>

text \<open>
  C9. When the identity key file cannot be read, or cannot be parsed, \<open>config\<close> fails
  with an error whose message names the file, and nothing else is tried. With a readable
  identity key: when no host-key file is given, the configuration accepts every host
  key; when a host-key file is given and is read, it is parsed as a public key and, when
  that fails, as an authorized-key line, and the configuration accepts the key parsed and
  refuses every other key. A configuration made with a host-key file given always pins a
  key.
\<close>

theorem config_keys:
  "(ReadFile sy kf = Inl e \<longrightarrow>
      config fl sy kf = Inl (Err (''unable to read private key '' @ kf @ '': '' @ e)))
   \<and> (ReadFile sy kf = Inr key \<and> ParsePrivateKey sy key = Inl e \<longrightarrow>
      config fl sy kf = Inl (Err (''ParsePrivateKey '' @ kf @ '': '' @ e)))
   \<and> (ReadFile sy kf = Inr key \<and> ParsePrivateKey sy key = Inr signer \<and> hostKeyFile fl = [] \<longrightarrow>
      (\<exists>c. config fl sy kf = Inr c \<and> (\<forall>k. check_host_key (HostKey c) k = None)))
   \<and> (ReadFile sy kf = Inr key \<and> ParsePrivateKey sy key = Inr signer \<and> hostKeyFile fl \<noteq> []
       \<and> ReadFile sy (hostKeyFile fl) = Inr hk
       \<and> (ParsePublicKey sy hk = Inr pk
            \<or> (ParsePublicKey sy hk = Inl e \<and> ParseAuthorizedKey sy hk = Inr pk)) \<longrightarrow>
      (\<exists>c. config fl sy kf = Inr c \<and> (\<forall>k. (check_host_key (HostKey c) k = None) = (k = pk))))
   \<and> (hostKeyFile fl \<noteq> [] \<and> config fl sy kf = Inr c' \<longrightarrow> (\<exists>pk'. HostKey c' = FixedHostKey pk'))"
  by (auto simp: config_def split: sum.splits)

theorem config_keys_witness:
  "ReadFile ok_sys ''/nokey'' = Inl ''no such file or directory''
   \<and> config ok_flags ok_sys ''/nokey''
       = Inl (Err ''unable to read private key /nokey: no such file or directory'')
   \<and> ReadFile ok_sys ''/etc/host.pub'' = Inr ''ssh-rsa AAAA''
   \<and> ParsePrivateKey ok_sys ''ssh-rsa AAAA'' = Inl ''ssh: no key found''
   \<and> config ok_flags ok_sys ''/etc/host.pub''
       = Inl (Err ''ParsePrivateKey /etc/host.pub: ssh: no key found'')
   \<and> ReadFile ok_sys ''/home/u/.ssh/cpu_rsa'' = Inr ''PRIVATE KEY''
   \<and> ParsePrivateKey ok_sys ''PRIVATE KEY'' = Inr ''signer''
   \<and> hostKeyFile ok_flags = []
   \<and> config ok_flags ok_sys ''/home/u/.ssh/cpu_rsa''
       = Inr \<lparr>User = ''u'', Auth = ''signer'', HostKey = InsecureIgnoreHostKey\<rparr>
   \<and> check_host_key InsecureIgnoreHostKey ''BBBB'' = None
   \<and> hostKeyFile (ok_flags\<lparr>hostKeyFile := ''/etc/host.pub''\<rparr>) \<noteq> []
   \<and> ParsePublicKey ok_sys ''ssh-rsa AAAA'' = Inl ''ssh: short read''
   \<and> ParseAuthorizedKey ok_sys ''ssh-rsa AAAA'' = Inr ''AAAA''
   \<and> config (ok_flags\<lparr>hostKeyFile := ''/etc/host.pub''\<rparr>) ok_sys ''/home/u/.ssh/cpu_rsa''
       = Inr \<lparr>User = ''u'', Auth = ''signer'', HostKey = FixedHostKey ''AAAA''\<rparr>
   \<and> check_host_key (FixedHostKey ''AAAA'') ''AAAA'' = None
   \<and> check_host_key (FixedHostKey ''AAAA'') ''BBBB'' = Some ''ssh: host key mismatch''"
  using config_keys [of ok_sys "''/nokey''" "''no such file or directory''" ok_flags]
    config_keys [of ok_sys "''/home/u/.ssh/cpu_rsa''" "''ssh: short read''"
      "ok_flags\<lparr>hostKeyFile := ''/etc/host.pub''\<rparr>" "''PRIVATE KEY''" "''signer''" "''ssh-rsa AAAA''" "''AAAA''"]
  by (simp add: ok_sys_def ok_flags_def config_def Getenv_def LookupEnv_def)

subsection \<open>The shape of a session\<close>

text \<open>
  What the layers of the client leave in the trace, read through \<open>marks\<close> and
  \<open>is_tunnel\<close>, and how they end.
\<close>

lemma env_loop_marks: "filter marks (env_loop f vs) = []"
  by (induction vs) (auto split: prod.splits option.splits)

lemma env_loop_tunnel: "filter is_tunnel (env_loop f vs) = []"
  by (induction vs) (auto split: prod.splits option.splits)

lemma shell_session_shape:
  "shell_session sy rm cmd envs = (evs, r) \<Longrightarrow>
     (filter marks evs = [] \<and> (\<exists>msg. r = Return (Some (Err msg))))
   \<or> (filter marks evs = [EvStart cmd, EvWait] \<and> r = Return (Wait rm))
   \<or> (\<exists>msg. filter marks evs = [EvFatal msg] \<and> r = Exit 1)"
  by (auto simp: shell_session_def Let_def env_def env_loop_marks split: option.splits)

lemma shell_session_tunnel: "filter is_tunnel (fst (shell_session sy rm cmd envs)) = []"
  by (auto simp: shell_session_def Let_def env_def env_loop_tunnel split: option.splits)

lemma shell_raw_shape:
  assumes "shell_raw fl sy rm cmd envs = (evs, r)"
  shows "(filter marks evs = [] \<and> (\<exists>msg. r = Return (Some (Err msg))))
   \<or> (filter marks evs = [EvStart cmd, EvWait] \<and> r = Return (Wait rm))
   \<or> (\<exists>msg. filter marks evs = [EvFatal msg] \<and> r = Exit 1)"
proof (cases "shell_session sy rm cmd envs")
  case (Pair evs' r')
  from shell_session_shape [OF Pair] assms Pair show ?thesis
    by (auto simp: shell_raw_def deferred_def split: sum.splits option.splits)
qed

lemma shell_raw_tunnel: "filter is_tunnel (fst (shell_raw fl sy rm cmd envs)) = []"
  using shell_session_tunnel [of sy rm cmd envs]
  by (cases "shell_session sy rm cmd envs")
     (auto simp: shell_raw_def deferred_def split: sum.splits option.splits outcome.splits)

lemma shell_shape:
  assumes "shell fl sy rm tt cmd envs = (evs, r)"
  shows "(evs = [] \<and> (\<exists>msg. r = Return (Some (Err msg))))
   \<or> (filter marks evs = [EvRaw, EvSet] \<and> (\<exists>msg. r = Return (Some (Err msg))))
   \<or> (filter marks evs = [EvRaw, EvStart cmd, EvWait, EvSet] \<and> r = Return (Wait rm))
   \<or> (\<exists>msg. filter marks evs = [EvRaw, EvFatal msg] \<and> r = Exit 1)"
proof (cases "shell_raw fl sy rm cmd envs")
  case (Pair evs' r')
  from shell_raw_shape [OF Pair] assms Pair show ?thesis
    by (auto simp: shell_def deferred_def split: option.splits)
qed

lemma shell_tunnel: "filter is_tunnel (fst (shell fl sy rm tt cmd envs)) = []"
  using shell_raw_tunnel [of fl sy rm cmd envs]
  by (cases "shell_raw fl sy rm cmd envs")
     (auto simp: shell_def deferred_def split: option.splits outcome.splits)


lemma listener_port_Inr: "\<exists>p. listener_port addr = Inr p"
  using genSplit_nonempty [of addr "CHR '':''" "Count addr (CHR '':'')"]
  by (simp add: listener_port_def Split_def Let_def)

lemma listener_port_not_Inl: "listener_port addr \<noteq> Inl e"
  using listener_port_Inr [of addr] by auto

lemma namespace_shape:
  "namespace fl sy rm cmd = (evs, f) \<Longrightarrow>
     (filter marks evs = [] \<and> (\<exists>msg. f = Done (Return (Some (Err msg)))))
   \<or> (\<exists>msg. filter marks evs = [EvFatal msg] \<and> f = Done (Exit 1))
   \<or> (filter marks evs = [] \<and> (\<exists>c envs. f = Next (c, envs)))"
  by (auto simp: namespace_def listener_port_not_Inl split: sum.splits)

lemma config_error_Err: "config fl sy kf = Inl e \<Longrightarrow> \<exists>msg. e = Err msg"
  by (auto simp: config_def split: sum.splits if_splits)

lemma dial_error_Err: "dial rm n a c = Some e \<Longrightarrow> \<exists>msg. e = Err msg"
  by (auto simp: dial_def split: option.splits)

lemma runClient_shape:
  assumes "runClient fl sy rm tt host a = (evs, r)"
  shows "(filter marks evs = [] \<and> (\<exists>msg. r = Return (Some (Err msg))))
   \<or> (\<exists>msg. filter marks evs = [EvFatal msg] \<and> r = Exit 1)
   \<or> (filter marks evs = [EvRaw, EvSet] \<and> (\<exists>msg. r = Return (Some (Err msg))))
   \<or> (\<exists>cmd. filter marks evs = [EvRaw, EvStart cmd, EvWait, EvSet] \<and> r = Return (Wait rm))
   \<or> (\<exists>msg. filter marks evs = [EvRaw, EvFatal msg] \<and> r = Exit 1)"
proof (cases "config fl sy (keyFile fl)")
  case (Inl e)
  with assms config_error_Err [OF Inl] show ?thesis
    by (auto simp: runClient_def)
next
  case (Inr c)
  show ?thesis
  proof (cases "dial rm (network fl) (JoinHostPort host (port fl)) c")
    case (Some e)
    with assms Inr dial_error_Err [OF Some] show ?thesis
      by (auto simp: runClient_def)
  next
    case None
    obtain evs0 f where pre: "tunnel fl sy rm = (evs0, f)"
      by (cases "tunnel fl sy rm") auto
    have pre_shape: "(filter marks evs0 = [] \<and> (\<exists>msg. f = Done (Return (Some (Err msg)))))
       \<or> (\<exists>msg. filter marks evs0 = [EvFatal msg] \<and> f = Done (Exit 1))
       \<or> (filter marks evs0 = [] \<and> (\<exists>c envs. f = Next (c, envs)))"
      using pre namespace_shape [of fl sy rm "base_cmd fl" evs0 f]
      by (auto simp: tunnel_def split: if_splits)
    show ?thesis
    proof (cases f)
      case (Done r0)
      with assms Inr None pre pre_shape show ?thesis
        by (auto simp: runClient_def)
    next
      case (Next ce)
      obtain c1 envs where ce: "ce = (c1, envs)" by (cases ce)
      obtain evs1 r1 where sh: "shell fl sy rm tt (c1 @ '' '' @ Quote (printable sy) a) envs = (evs1, r1)"
        by (cases "shell fl sy rm tt (c1 @ '' '' @ Quote (printable sy) a) envs") auto
      from assms Inr None pre Next ce sh have res: "evs = evs0 @ evs1" "r = r1"
        by (auto simp: runClient_def)
      from pre_shape Next have m0: "filter marks evs0 = []"
        by auto
      from shell_shape [OF sh] m0 res show ?thesis
        by auto
    qed
  qed
qed

lemma main_shape:
  assumes "main fl sy rm tt args = (evs, code)"
  shows "(\<exists>msg. filter marks evs = [EvFatal msg] \<and> code = 1)
   \<or> (filter marks evs = [EvSetTermios] \<and> code = 1)
   \<or> (filter marks evs = [EvRaw, EvSet, EvSetTermios] \<and> code = 1)
   \<or> (\<exists>cmd. filter marks evs = [EvRaw, EvStart cmd, EvWait, EvSet, EvSetTermios]
         \<and> code = (case Wait rm of None \<Rightarrow> 0 | Some (ExitError status msg) \<Rightarrow> status mod 256
                     | Some (Err msg) \<Rightarrow> 1))
   \<or> (\<exists>msg. filter marks evs = [EvRaw, EvFatal msg] \<and> code = 1)"
proof (cases "args = [] \<or> GetTermios tt \<noteq> None")
  case True
  then consider "args = []" | err where "args \<noteq> []" "GetTermios tt = Some err"
    by auto
  then show ?thesis
  proof cases
    case 1
    with assms show ?thesis by (auto simp: main_def os_Exit_def)
  next
    case 2
    with assms show ?thesis by (auto simp: main_def Let_def os_Exit_def)
  qed
next
  case False
  then have ne: "args \<noteq> []" and gt: "GetTermios tt = None"
    by auto
  obtain evs1 r where rc: "runClient fl sy rm tt (args ! 0) (remote_arg sy args) = (evs1, r)"
    by (cases "runClient fl sy rm tt (args ! 0) (remote_arg sy args)") auto
  have rs: "filter marks (restore tt) = [EvSetTermios]"
    by (simp add: restore_def split: option.splits)
  from assms ne gt rc have m:
    "(evs, code) =
       (case r of
          Exit n \<Rightarrow> (evs1, n mod 256)
        | Return None \<Rightarrow> (evs1 @ restore tt, 0)
        | Return (Some err) \<Rightarrow>
            (evs1 @ [EvLog (''SSH error '' @ Error err)] @ restore tt,
             (case err of ExitError status msg \<Rightarrow> status mod 256 | Err msg \<Rightarrow> 1)))"
    by (simp add: main_def Let_def os_Exit_def split: outcome.splits option.splits error.splits)
  from runClient_shape [OF rc] m rs show ?thesis
    by (auto split: option.splits error.splits)
qed

lemma runClient_namespace_off:
  assumes "\<not> wantNameSpace sy" "config fl sy (keyFile fl) = Inr c"
    "dial rm (network fl) (JoinHostPort host (port fl)) c = None"
  shows "runClient fl sy rm tt host a
      = shell fl sy rm tt (bin fl @ '' -remote -bin '' @ bin fl @ '' '' @ Quote (printable sy) a) []"
  using assms
  by (cases "shell fl sy rm tt (base_cmd fl @ '' '' @ Quote (printable sy) a) []")
     (simp add: runClient_def tunnel_def base_cmd_def)

lemma appendQuoted_plain:
  "(\<And>c. c \<in> set s \<Longrightarrow>
       0x20 \<le> (of_char c :: int) \<and> (of_char c :: int) < 0x7F \<and> c \<noteq> dquote \<and> c \<noteq> backslash)
     \<Longrightarrow> appendQuoted tables s = s"
proof (induction s)
  case Nil
  show ?case by simp
next
  case (Cons c cs)
  have c: "0x20 \<le> (of_char c :: int)" "(of_char c :: int) < 0x7F" "c \<noteq> dquote" "c \<noteq> backslash"
    using Cons.prems [of c] by simp_all
  have esc: "appendEscapedRune tables (of_char c) = [c]"
    using c by (simp add: appendEscapedRune_def IsPrint_def EncodeRune_def)
  have "appendQuoted tables cs = cs"
    using Cons.prems by (intro Cons.IH) simp
  with c esc show ?case
    by (simp add: RuneError_def)
qed

lemma Quote_bash: "Quote tables ''/bin/bash'' = [dquote] @ ''/bin/bash'' @ [dquote]"
proof -
  have "appendQuoted tables ''/bin/bash'' = ''/bin/bash''"
    by (rule appendQuoted_plain) (auto simp: dquote_def backslash_def)
  then show ?thesis
    by (simp add: Quote_def)
qed

lemma shell_success_marks:
  assumes "termios_New tt = None" "Raw tt = None" "bin fl \<noteq> []" "NewSession rm = None"
    "RequestPty rm = None" "StdinPipe rm = None" "StdoutPipe rm = None" "StderrPipe rm = None"
    "Start rm cmd = None"
  shows "filter marks (fst (shell fl sy rm tt cmd envs)) = [EvRaw, EvStart cmd, EvWait, EvSet]"
    and "snd (shell fl sy rm tt cmd envs) = Return (Wait rm)"
  using assms
  by (simp_all add: shell_def shell_raw_def shell_session_def Let_def env_def env_loop_marks deferred_def)

lemma main_marks:
  assumes "args \<noteq> []" "GetTermios tt = None"
  shows "filter marks (fst (main fl sy rm tt args)) =
     filter marks (fst (runClient fl sy rm tt (args ! 0) (remote_arg sy args)))
       @ (case snd (runClient fl sy rm tt (args ! 0) (remote_arg sy args)) of
            Exit n \<Rightarrow> [] | Return err \<Rightarrow> [EvSetTermios])"
proof -
  have rs: "filter marks (restore tt) = [EvSetTermios]"
    by (simp add: restore_def split: option.splits)
  show ?thesis
    using assms rs
    by (cases "runClient fl sy rm tt (args ! 0) (remote_arg sy args)")
       (simp add: main_def Let_def split: outcome.splits option.splits)
qed

lemma runClient_namespace_on:
  assumes "wantNameSpace sy" "config fl sy (keyFile fl) = Inr c"
    "dial rm (network fl) (JoinHostPort host (port fl)) c = None"
    "ParseDuration sy (timeout9P fl) = Inr d" "Listen rm = Inr addr"
    "listener_port addr = Inr port9p" "generateNonce (rand_Read sy) = Inr nonce"
  shows "runClient fl sy rm tt host a
      = (EvListen ''tcp'' ''127.0.0.1:0'' # EvServe addr (root fl) nonce d
           # fst (shell fl sy rm tt
                 (bin fl @ '' -remote -bin '' @ bin fl @ '' -port9p '' @ port9p @ '' '' @ Quote (printable sy) a)
                 [''CPUNONCE='' @ nonce_String nonce]),
         snd (shell fl sy rm tt
                 (bin fl @ '' -remote -bin '' @ bin fl @ '' -port9p '' @ port9p @ '' '' @ Quote (printable sy) a)
                 [''CPUNONCE='' @ nonce_String nonce]))"
proof -
  have t: "tunnel fl sy rm = ([EvListen ''tcp'' ''127.0.0.1:0'', EvServe addr (root fl) nonce d],
        Next (base_cmd fl @ '' -port9p '' @ port9p, [''CPUNONCE='' @ nonce_String nonce]))"
    using assms by (simp add: tunnel_def namespace_def)
  show ?thesis
    using assms t by (simp add: runClient_def base_cmd_def split: prod.splits)
qed

lemma ok_run:
  "main ok_flags ok_sys ok_remote ok_tty [''testhost''] =
    ([EvListen ''tcp'' ''127.0.0.1:0'',
      EvServe ''127.0.0.1:40000'' ''/'' ''00112233445566778899aabbccddeeff'' 100,
      EvRaw, EvNewSession, EvSetenv ''USER'' ''u'', EvSetenv ''SHELL'' ''/bin/bash'',
      EvSetenv ''CPUNONCE'' ''00112233445566778899aabbccddeeff'', EvRequestPty,
      EvStart (''cpud -remote -bin cpud -port9p 40000 '' @ [dquote] @ ''/bin/bash'' @ [dquote]),
      EvGoStdin, EvGoCopyStdout, EvGoCopyStderr, EvWait, EvSessionClose, EvSet, EvSetTermios], 0)"
  by code_simp

lemma restore_marks: "filter is_restore (filter marks evs) = filter is_restore evs"
proof (induction evs)
  case Nil
  show ?case by simp
next
  case (Cons e evs)
  then show ?case by (cases e) simp_all
qed

lemma fatal_marks: "list_ex is_fatal (filter marks evs) = list_ex is_fatal evs"
proof (induction evs)
  case Nil
  show ?case by simp
next
  case (Cons e evs)
  then show ?case by (cases e) simp_all
qed

subsection \<open>The terminal\<close>

text \<open>
  C4, as the code has it. In every run of \<open>main\<close> that puts the terminal into raw mode and
  does not end in \<open>log.Fatal\<close>, the terminal mode is restored twice: first by the deferred
  \<open>t.Set(r)\<close> of \<open>shell\<close>, then by \<open>termios.SetTermios(0, t)\<close> of \<open>main\<close>, and by nothing
  else. When the remote command was started, both restorations come after the wait for
  its end; otherwise the command never started and there is no wait.
\<close>

theorem terminal_restored_twice:
  assumes run: "main fl sy rm tt args = (evs, code)"
    and raw: "EvRaw \<in> set evs"
    and alive: "\<not> list_ex is_fatal evs"
  shows "filter is_restore evs = [EvSet, EvSetTermios]
    \<and> (filter marks evs = [EvRaw, EvSet, EvSetTermios]
       \<or> (\<exists>cmd. filter marks evs = [EvRaw, EvStart cmd, EvWait, EvSet, EvSetTermios]))"
proof -
  define M where "M = filter marks evs"
  have rawM: "EvRaw \<in> set M"
    using raw by (simp add: M_def)
  have aliveM: "\<not> list_ex is_fatal M"
    using alive by (simp add: M_def fatal_marks)
  from main_shape [OF run, folded M_def] rawM aliveM
  have shape: "M = [EvRaw, EvSet, EvSetTermios]
       \<or> (\<exists>cmd. M = [EvRaw, EvStart cmd, EvWait, EvSet, EvSetTermios])"
    by auto
  then have "filter is_restore M = [EvSet, EvSetTermios]"
    by auto
  then have "filter is_restore evs = [EvSet, EvSetTermios]"
    by (simp only: M_def restore_marks)
  with shape show ?thesis
    by (simp add: M_def)
qed

theorem terminal_restored_twice_witness:
  "EvRaw \<in> set (fst (main ok_flags ok_sys ok_remote ok_tty [''testhost'']))
   \<and> \<not> list_ex is_fatal (fst (main ok_flags ok_sys ok_remote ok_tty [''testhost'']))
   \<and> filter is_restore (fst (main ok_flags ok_sys ok_remote ok_tty [''testhost''])) = [EvSet, EvSetTermios]"
  using terminal_restored_twice [OF ok_run] by (simp add: ok_run)

text \<open>
  A single restoration is not what happens in the session in which every call succeeds: the
  terminal is put into raw mode and is restored twice.
\<close>

theorem restored_not_once:
  "EvRaw \<in> set (fst (main ok_flags ok_sys ok_remote ok_tty [''testhost'']))
   \<and> filter is_restore (fst (main ok_flags ok_sys ok_remote ok_tty [''testhost''])) = [EvSet, EvSetTermios]
   \<and> length (filter is_restore (fst (main ok_flags ok_sys ok_remote ok_tty [''testhost'']))) \<noteq> 1"
  by (simp add: ok_run)

subsection \<open>The exit status\<close>

lemma runClient_snd:
  "snd (runClient fl sy rm tt host a) = Exit n \<Longrightarrow> n = 1"
  "snd (runClient fl sy rm tt host a) = Return (Some (ExitError status msg)) \<Longrightarrow>
     Wait rm = Some (ExitError status msg)"
proof -
  obtain evs r where rc: "runClient fl sy rm tt host a = (evs, r)"
    by (cases "runClient fl sy rm tt host a") auto
  { assume "snd (runClient fl sy rm tt host a) = Exit n"
    with runClient_shape [OF rc] rc show "n = 1" by auto }
  { assume "snd (runClient fl sy rm tt host a) = Return (Some (ExitError status msg))"
    with runClient_shape [OF rc] rc show "Wait rm = Some (ExitError status msg)" by auto }
qed

lemma main_snd:
  "args \<noteq> [] \<Longrightarrow> GetTermios tt = None \<Longrightarrow>
   snd (main fl sy rm tt args) =
     (case snd (runClient fl sy rm tt (args ! 0) (remote_arg sy args)) of
        Exit n \<Rightarrow> n mod 256
      | Return None \<Rightarrow> 0
      | Return (Some err) \<Rightarrow> (case err of ExitError status msg \<Rightarrow> status mod 256 | Err msg \<Rightarrow> 1))"
  by (cases "runClient fl sy rm tt (args ! 0) (remote_arg sy args)")
     (simp add: main_def Let_def os_Exit_def split: outcome.splits option.splits error.splits)

text \<open>
  C8, as the code has it. The status the process exits with is 1 when there is no
  argument, and 1 when the terminal mode cannot be read. Otherwise it follows
  \<open>runClient\<close>: 0 when it returns no error; when it returns an \<open>*ssh.ExitError\<close>, which is
  then the error that \<open>session.Wait\<close> reported, the low 8 bits of the exit status of the
  remote command, and so that status itself whenever it lies between 0 and 255; 1 when
  it returns any other error, and 1 when it ends in \<open>log.Fatal\<close>. A configuration that
  cannot be made and a connection that cannot be dialled make \<open>runClient\<close> return an
  error that is no \<open>*ssh.ExitError\<close>, so the status is 1.
\<close>

theorem exit_status:
  "(args = [] \<longrightarrow> snd (main fl sy rm tt args) = 1)
   \<and> (args \<noteq> [] \<and> GetTermios tt = Some e \<longrightarrow> snd (main fl sy rm tt args) = 1)
   \<and> (args \<noteq> [] \<and> GetTermios tt = None \<longrightarrow>
       (case snd (runClient fl sy rm tt (args ! 0) (remote_arg sy args)) of
          Return None \<Rightarrow> snd (main fl sy rm tt args) = 0
        | Return (Some (ExitError status msg)) \<Rightarrow>
            snd (main fl sy rm tt args) = status mod 256
            \<and> (0 \<le> status \<and> status < 256 \<longrightarrow> snd (main fl sy rm tt args) = status)
            \<and> Wait rm = Some (ExitError status msg)
        | Return (Some (Err msg)) \<Rightarrow> snd (main fl sy rm tt args) = 1
        | Exit n \<Rightarrow> snd (main fl sy rm tt args) = 1))
   \<and> (config fl sy (keyFile fl) = Inl ce \<longrightarrow>
       (\<exists>msg. runClient fl sy rm tt host a = ([], Return (Some (Err msg)))))
   \<and> (config fl sy (keyFile fl) = Inr c
       \<and> Dial rm (network fl) (JoinHostPort host (port fl)) c = Some de \<longrightarrow>
       runClient fl sy rm tt host a = ([], Return (Some (Err (''Failed to dial: '' @ de)))))"
proof (intro conjI impI)
  assume "args = []"
  then show "snd (main fl sy rm tt args) = 1"
    by (simp add: main_def os_Exit_def)
next
  assume "args \<noteq> [] \<and> GetTermios tt = Some e"
  then show "snd (main fl sy rm tt args) = 1"
    by (simp add: main_def Let_def os_Exit_def)
next
  assume h: "args \<noteq> [] \<and> GetTermios tt = None"
  then have m: "snd (main fl sy rm tt args) =
     (case snd (runClient fl sy rm tt (args ! 0) (remote_arg sy args)) of
        Exit n \<Rightarrow> n mod 256
      | Return None \<Rightarrow> 0
      | Return (Some err) \<Rightarrow> (case err of ExitError status msg \<Rightarrow> status mod 256 | Err msg \<Rightarrow> 1))"
    by (simp add: main_snd)
  show "case snd (runClient fl sy rm tt (args ! 0) (remote_arg sy args)) of
          Return None \<Rightarrow> snd (main fl sy rm tt args) = 0
        | Return (Some (ExitError status msg)) \<Rightarrow>
            snd (main fl sy rm tt args) = status mod 256
            \<and> (0 \<le> status \<and> status < 256 \<longrightarrow> snd (main fl sy rm tt args) = status)
            \<and> Wait rm = Some (ExitError status msg)
        | Return (Some (Err msg)) \<Rightarrow> snd (main fl sy rm tt args) = 1
        | Exit n \<Rightarrow> snd (main fl sy rm tt args) = 1"
    using m runClient_snd [of fl sy rm tt "args ! 0" "remote_arg sy args"]
    by (auto split: outcome.splits option.splits error.splits)
next
  assume ce: "config fl sy (keyFile fl) = Inl ce"
  with config_error_Err [OF ce] show "\<exists>msg. runClient fl sy rm tt host a = ([], Return (Some (Err msg)))"
    by (auto simp: runClient_def)
next
  assume "config fl sy (keyFile fl) = Inr c
       \<and> Dial rm (network fl) (JoinHostPort host (port fl)) c = Some de"
  then show "runClient fl sy rm tt host a = ([], Return (Some (Err (''Failed to dial: '' @ de))))"
    by (simp add: runClient_def dial_def)
qed

lemma exit_run:
  "snd (main ok_flags ok_sys (ok_remote\<lparr>Wait := Some (ExitError 3 ''Process exited with status 3'')\<rparr>)
      ok_tty [''testhost'', ''false'']) = 3"
  "snd (main ok_flags ok_sys (ok_remote\<lparr>Dial := (\<lambda>n a c. Some ''connection refused'')\<rparr>)
      ok_tty [''testhost'']) = 1"
  "snd (main ok_flags ok_sys ok_remote ok_tty []) = 1"
  "snd (main (ok_flags\<lparr>keyFile := ''/nokey''\<rparr>) ok_sys ok_remote ok_tty [''testhost'']) = 1"
  by code_simp+

theorem exit_status_witness:
  "snd (main ok_flags ok_sys ok_remote ok_tty [''testhost'']) = 0
   \<and> snd (main ok_flags ok_sys (ok_remote\<lparr>Wait := Some (ExitError 3 ''Process exited with status 3'')\<rparr>)
        ok_tty [''testhost'', ''false'']) = 3
   \<and> snd (main ok_flags ok_sys (ok_remote\<lparr>Dial := (\<lambda>n a c. Some ''connection refused'')\<rparr>)
        ok_tty [''testhost'']) = 1
   \<and> snd (main (ok_flags\<lparr>keyFile := ''/nokey''\<rparr>) ok_sys ok_remote ok_tty [''testhost'']) = 1
   \<and> snd (main ok_flags ok_sys ok_remote ok_tty []) = 1"
proof -
  let ?rm = "ok_remote\<lparr>Wait := Some (ExitError 3 ''Process exited with status 3'')\<rparr>"
  have a: "remote_arg ok_sys [''testhost'', ''false''] = ''false''"
    by code_simp
  have rc: "snd (runClient ok_flags ok_sys ?rm ok_tty ''testhost'' ''false'')
      = Return (Some (ExitError 3 ''Process exited with status 3''))"
    by code_simp
  have g: "GetTermios ok_tty = None"
    by (simp add: ok_tty_def)
  from exit_status [of "[''testhost'', ''false'']" ok_flags ok_sys ?rm ok_tty] a rc g
  have three: "snd (main ok_flags ok_sys ?rm ok_tty [''testhost'', ''false'']) = 3"
    by simp
  from exit_status [of "[]" ok_flags ok_sys ok_remote ok_tty]
  have none: "snd (main ok_flags ok_sys ok_remote ok_tty []) = 1"
    by simp
  from three none show ?thesis
    by (simp add: exit_run ok_run)
qed

text \<open>
  The exit status of the remote command does not reach the parent as it is when it does
  not fit 8 bits: when the transport reports the status 256, the process exits with 0.
\<close>

theorem exit_status_truncated:
  "snd (runClient ok_flags ok_sys
          (ok_remote\<lparr>Wait := Some (ExitError 256 ''Process exited with status 256'')\<rparr>)
          ok_tty ''testhost'' ''/bin/bash'')
     = Return (Some (ExitError 256 ''Process exited with status 256''))
   \<and> snd (main ok_flags ok_sys
          (ok_remote\<lparr>Wait := Some (ExitError 256 ''Process exited with status 256'')\<rparr>)
          ok_tty [''testhost'']) = 0
   \<and> snd (main ok_flags ok_sys
          (ok_remote\<lparr>Wait := Some (ExitError 256 ''Process exited with status 256'')\<rparr>)
          ok_tty [''testhost'']) \<noteq> 256"
proof -
  have rc: "snd (runClient ok_flags ok_sys
          (ok_remote\<lparr>Wait := Some (ExitError 256 ''Process exited with status 256'')\<rparr>)
          ok_tty ''testhost'' ''/bin/bash'')
     = Return (Some (ExitError 256 ''Process exited with status 256''))"
    by code_simp
  have m: "snd (main ok_flags ok_sys
          (ok_remote\<lparr>Wait := Some (ExitError 256 ''Process exited with status 256'')\<rparr>)
          ok_tty [''testhost'']) = 0"
    by code_simp
  from rc m show ?thesis
    by simp
qed

subsection \<open>The namespace switch\<close>

lemma shell_session_ignores_tunnel_outcomes:
  "shell_session (sy\<lparr>rand_Read := rnd\<rparr>) (rm\<lparr>Listen := lst\<rparr>) cmd envs = shell_session sy rm cmd envs"
  by (simp add: shell_session_def env_def Let_def split: option.splits)

lemma shell_raw_ignores_tunnel_outcomes:
  "shell_raw fl (sy\<lparr>rand_Read := rnd\<rparr>) (rm\<lparr>Listen := lst\<rparr>) cmd envs = shell_raw fl sy rm cmd envs"
  by (simp add: shell_raw_def shell_session_ignores_tunnel_outcomes split: option.splits sum.splits)

lemma shell_ignores_tunnel_outcomes:
  "shell fl (sy\<lparr>rand_Read := rnd\<rparr>) (rm\<lparr>Listen := lst\<rparr>) tt cmd envs = shell fl sy rm tt cmd envs"
  by (simp add: shell_def shell_raw_ignores_tunnel_outcomes split: option.splits)

lemma config_ignores_rand: "config fl (sy\<lparr>rand_Read := rnd\<rparr>) kf = config fl sy kf"
  by (simp add: config_def split: sum.splits)

lemma dial_ignores_Listen: "dial (rm\<lparr>Listen := lst\<rparr>) n a c = dial rm n a c"
  by (simp add: dial_def)

lemma wantNameSpace_iff:
  "wantNameSpace sy = (LookupEnv (environ sy) ''CPU_NAMESPACE'' \<noteq> Some [])"
  by (simp add: wantNameSpace_def split: option.splits)

text \<open>
  C5. \<open>wantNameSpace\<close> is false exactly when \<open>CPU_NAMESPACE\<close> is in the environment with
  the empty value. Then, once the connection stands, \<open>runClient\<close> is \<open>shell\<close> on the
  command with no \<open>-port9p\<close> flag and with no environment entry added: no listener is
  requested and no server started, and neither the random source nor the answer to a
  listen request has any influence on the run. When \<open>CPU_NAMESPACE\<close> is not set, or set
  to a value that is not empty, and the duration parses, the listener is granted and the
  random source reads, \<open>runClient\<close> requests the listener, starts the server with the
  nonce, and calls \<open>shell\<close> on the command with the flag \<open>-port9p\<close> and the port of the
  listener, with the entry \<open>CPUNONCE=\<close> and the nonce added to the environment.
\<close>

theorem namespace_switch:
  "wantNameSpace sy = (LookupEnv (environ sy) ''CPU_NAMESPACE'' \<noteq> Some [])
   \<and> (LookupEnv (environ sy) ''CPU_NAMESPACE'' = Some []
       \<and> config fl sy (keyFile fl) = Inr c
       \<and> dial rm (network fl) (JoinHostPort host (port fl)) c = None \<longrightarrow>
         runClient fl sy rm tt host a
           = shell fl sy rm tt (bin fl @ '' -remote -bin '' @ bin fl @ '' '' @ Quote (printable sy) a) []
         \<and> filter is_tunnel (fst (runClient fl sy rm tt host a)) = []
         \<and> runClient fl (sy\<lparr>rand_Read := rnd\<rparr>) (rm\<lparr>Listen := lst\<rparr>) tt host a
           = runClient fl sy rm tt host a)
   \<and> (LookupEnv (environ sy) ''CPU_NAMESPACE'' \<noteq> Some []
       \<and> config fl sy (keyFile fl) = Inr c
       \<and> dial rm (network fl) (JoinHostPort host (port fl)) c = None
       \<and> ParseDuration sy (timeout9P fl) = Inr d \<and> Listen rm = Inr addr \<and> rand_Read sy = Inr src \<longrightarrow>
         (\<exists>port9p nonce.
            listener_port addr = Inr port9p \<and> generateNonce (Inr src) = Inr nonce
            \<and> runClient fl sy rm tt host a
                = (EvListen ''tcp'' ''127.0.0.1:0'' # EvServe addr (root fl) nonce d
                     # fst (shell fl sy rm tt
                         (bin fl @ '' -remote -bin '' @ bin fl @ '' -port9p '' @ port9p @ '' '' @ Quote (printable sy) a)
                         [''CPUNONCE='' @ nonce_String nonce]),
                   snd (shell fl sy rm tt
                         (bin fl @ '' -remote -bin '' @ bin fl @ '' -port9p '' @ port9p @ '' '' @ Quote (printable sy) a)
                         [''CPUNONCE='' @ nonce_String nonce]))))"
proof (intro conjI impI)
  show "wantNameSpace sy = (LookupEnv (environ sy) ''CPU_NAMESPACE'' \<noteq> Some [])"
    by (rule wantNameSpace_iff)
next
  assume h: "LookupEnv (environ sy) ''CPU_NAMESPACE'' = Some []
       \<and> config fl sy (keyFile fl) = Inr c
       \<and> dial rm (network fl) (JoinHostPort host (port fl)) c = None"
  then have off: "\<not> wantNameSpace sy"
    by (simp add: wantNameSpace_iff)
  from h have cf: "config fl sy (keyFile fl) = Inr c"
    and dl: "dial rm (network fl) (JoinHostPort host (port fl)) c = None"
    by simp_all
  from off cf dl show rc: "runClient fl sy rm tt host a
           = shell fl sy rm tt (bin fl @ '' -remote -bin '' @ bin fl @ '' '' @ Quote (printable sy) a) []"
    by (rule runClient_namespace_off)
  show "filter is_tunnel (fst (runClient fl sy rm tt host a)) = []"
    by (simp only: rc shell_tunnel)
  have "\<not> wantNameSpace (sy\<lparr>rand_Read := rnd\<rparr>)"
    using off by (simp add: wantNameSpace_def)
  moreover have "config fl (sy\<lparr>rand_Read := rnd\<rparr>) (keyFile fl) = Inr c"
    using h by (simp add: config_ignores_rand)
  moreover have "dial (rm\<lparr>Listen := lst\<rparr>) (network fl) (JoinHostPort host (port fl)) c = None"
    using h by (simp add: dial_ignores_Listen)
  ultimately have "runClient fl (sy\<lparr>rand_Read := rnd\<rparr>) (rm\<lparr>Listen := lst\<rparr>) tt host a
      = shell fl (sy\<lparr>rand_Read := rnd\<rparr>) (rm\<lparr>Listen := lst\<rparr>) tt
          (bin fl @ '' -remote -bin '' @ bin fl @ '' '' @ Quote (printable (sy\<lparr>rand_Read := rnd\<rparr>)) a) []"
    by (rule runClient_namespace_off)
  then have "runClient fl (sy\<lparr>rand_Read := rnd\<rparr>) (rm\<lparr>Listen := lst\<rparr>) tt host a
      = shell fl (sy\<lparr>rand_Read := rnd\<rparr>) (rm\<lparr>Listen := lst\<rparr>) tt
          (bin fl @ '' -remote -bin '' @ bin fl @ '' '' @ Quote (printable sy) a) []"
    by simp
  then show "runClient fl (sy\<lparr>rand_Read := rnd\<rparr>) (rm\<lparr>Listen := lst\<rparr>) tt host a
           = runClient fl sy rm tt host a"
    by (simp only: rc shell_ignores_tunnel_outcomes)
next
  assume h: "LookupEnv (environ sy) ''CPU_NAMESPACE'' \<noteq> Some []
       \<and> config fl sy (keyFile fl) = Inr c
       \<and> dial rm (network fl) (JoinHostPort host (port fl)) c = None
       \<and> ParseDuration sy (timeout9P fl) = Inr d \<and> Listen rm = Inr addr \<and> rand_Read sy = Inr src"
  then have on: "wantNameSpace sy"
    by (simp add: wantNameSpace_iff)
  obtain port9p where p: "listener_port addr = Inr port9p"
    using listener_port_Inr by blast
  obtain nonce where n: "generateNonce (Inr src) = Inr nonce"
    by (simp add: generateNonce_Inr)
  from h n have n': "generateNonce (rand_Read sy) = Inr nonce"
    by simp
  from h have cf: "config fl sy (keyFile fl) = Inr c"
    and dl: "dial rm (network fl) (JoinHostPort host (port fl)) c = None"
    and pd: "ParseDuration sy (timeout9P fl) = Inr d" and ls: "Listen rm = Inr addr"
    by simp_all
  from on cf dl pd ls p n' have "runClient fl sy rm tt host a
      = (EvListen ''tcp'' ''127.0.0.1:0'' # EvServe addr (root fl) nonce d
           # fst (shell fl sy rm tt
                 (bin fl @ '' -remote -bin '' @ bin fl @ '' -port9p '' @ port9p @ '' '' @ Quote (printable sy) a)
                 [''CPUNONCE='' @ nonce_String nonce]),
         snd (shell fl sy rm tt
                 (bin fl @ '' -remote -bin '' @ bin fl @ '' -port9p '' @ port9p @ '' '' @ Quote (printable sy) a)
                 [''CPUNONCE='' @ nonce_String nonce]))"
    by (rule runClient_namespace_on)
  with p n show "\<exists>port9p nonce.
            listener_port addr = Inr port9p \<and> generateNonce (Inr src) = Inr nonce
            \<and> runClient fl sy rm tt host a
                = (EvListen ''tcp'' ''127.0.0.1:0'' # EvServe addr (root fl) nonce d
                     # fst (shell fl sy rm tt
                         (bin fl @ '' -remote -bin '' @ bin fl @ '' -port9p '' @ port9p @ '' '' @ Quote (printable sy) a)
                         [''CPUNONCE='' @ nonce_String nonce]),
                   snd (shell fl sy rm tt
                         (bin fl @ '' -remote -bin '' @ bin fl @ '' -port9p '' @ port9p @ '' '' @ Quote (printable sy) a)
                         [''CPUNONCE='' @ nonce_String nonce]))"
    by blast
qed

lemma no_namespace_run:
  "LookupEnv (environ (ok_sys\<lparr>environ := [''CPU_NAMESPACE='', ''USER=u'']\<rparr>)) ''CPU_NAMESPACE'' = Some []"
  "config ok_flags (ok_sys\<lparr>environ := [''CPU_NAMESPACE='', ''USER=u'']\<rparr>) (keyFile ok_flags)
     = Inr \<lparr>User = ''u'', Auth = ''signer'', HostKey = InsecureIgnoreHostKey\<rparr>"
  "runClient ok_flags (ok_sys\<lparr>environ := [''CPU_NAMESPACE='', ''USER=u'']\<rparr>) ok_remote ok_tty ''testhost'' ''ls''
     = ([EvRaw, EvNewSession, EvSetenv ''CPU_NAMESPACE'' [], EvSetenv ''USER'' ''u'', EvRequestPty,
         EvStart (''cpud -remote -bin cpud '' @ [dquote] @ ''ls'' @ [dquote]),
         EvGoStdin, EvGoCopyStdout, EvGoCopyStderr, EvWait, EvSessionClose, EvSet], Return None)"
  by code_simp+

theorem namespace_switch_witness:
  "LookupEnv (environ (ok_sys\<lparr>environ := [''CPU_NAMESPACE='', ''USER=u'']\<rparr>)) ''CPU_NAMESPACE'' = Some []
   \<and> \<not> wantNameSpace (ok_sys\<lparr>environ := [''CPU_NAMESPACE='', ''USER=u'']\<rparr>)
   \<and> runClient ok_flags (ok_sys\<lparr>environ := [''CPU_NAMESPACE='', ''USER=u'']\<rparr>) ok_remote ok_tty ''testhost'' ''ls''
     = ([EvRaw, EvNewSession, EvSetenv ''CPU_NAMESPACE'' [], EvSetenv ''USER'' ''u'', EvRequestPty,
         EvStart (''cpud -remote -bin cpud '' @ [dquote] @ ''ls'' @ [dquote]),
         EvGoStdin, EvGoCopyStdout, EvGoCopyStderr, EvWait, EvSessionClose, EvSet], Return None)
   \<and> filter is_tunnel (fst (runClient ok_flags (ok_sys\<lparr>environ := [''CPU_NAMESPACE='', ''USER=u'']\<rparr>)
         ok_remote ok_tty ''testhost'' ''ls'')) = []"
proof -
  let ?sy = "ok_sys\<lparr>environ := [''CPU_NAMESPACE='', ''USER=u'']\<rparr>"
  let ?c = "\<lparr>User = ''u'', Auth = ''signer'', HostKey = InsecureIgnoreHostKey\<rparr>"
  have d: "dial ok_remote (network ok_flags) (JoinHostPort ''testhost'' (port ok_flags)) ?c = None"
    by (simp add: dial_def ok_remote_def)
  note sw = namespace_switch [of ?sy ok_flags ?c ok_remote "''testhost''" ok_tty "''ls''"]
  from sw no_namespace_run(1) have off: "\<not> wantNameSpace ?sy"
    by blast
  from sw no_namespace_run(1,2) d
  have "filter is_tunnel (fst (runClient ok_flags ?sy ok_remote ok_tty ''testhost'' ''ls'')) = []"
    by blast
  with off no_namespace_run(1,3) show ?thesis
    by blast
qed

subsection \<open>The remote command\<close>

text \<open>
  C6, as the code has it. For a session started with the host alone, with
  \<open>SHELL=/bin/bash\<close> in the local environment, the namespace wanted, \<open>N\<close> the port of
  the listener granted, and every call up to \<open>session.Start\<close> succeeding, the command
  given to \<open>session.Start\<close> is \<open><bin> -remote -bin <bin> -port9p N "/bin/bash"\<close>: the
  value of \<open>SHELL\<close> is appended through the verb \<open>%q\<close>, between double quotes.
\<close>

theorem remote_command_default_shell:
  assumes "Getenv (environ sy) ''SHELL'' = ''/bin/bash''" and "wantNameSpace sy"
    and "GetTermios tt = None" and "config fl sy (keyFile fl) = Inr c"
    and "dial rm (network fl) (JoinHostPort host (port fl)) c = None"
    and "ParseDuration sy (timeout9P fl) = Inr d" and "Listen rm = Inr addr"
    and "listener_port addr = Inr N" and "rand_Read sy = Inr src"
    and "termios_New tt = None" and "Raw tt = None" and "bin fl \<noteq> []"
    and "NewSession rm = None" and "RequestPty rm = None" and "StdinPipe rm = None"
    and "StdoutPipe rm = None" and "StderrPipe rm = None" and "\<And>cmd. Start rm cmd = None"
  shows "filter marks (fst (main fl sy rm tt [host])) =
      [EvRaw,
       EvStart (bin fl @ '' -remote -bin '' @ bin fl @ '' -port9p '' @ N @ '' '' @ [dquote] @ ''/bin/bash'' @ [dquote]),
       EvWait, EvSet, EvSetTermios]"
proof -
  define cmd where "cmd = bin fl @ '' -remote -bin '' @ bin fl @ '' -port9p '' @ N @ '' '' @ Quote (printable sy) ''/bin/bash''"
  obtain nonce where n: "generateNonce (rand_Read sy) = Inr nonce"
    using assms(9) by (simp add: generateNonce_Inr)
  define envs where "envs = [''CPUNONCE='' @ nonce_String nonce]"
  have a: "remote_arg sy [host] = ''/bin/bash''"
    using assms(1) by (simp add: remote_arg_def)
  have "runClient fl sy rm tt host ''/bin/bash''
      = (EvListen ''tcp'' ''127.0.0.1:0'' # EvServe addr (root fl) nonce d
           # fst (shell fl sy rm tt
                 (bin fl @ '' -remote -bin '' @ bin fl @ '' -port9p '' @ N @ '' '' @ Quote (printable sy) ''/bin/bash'')
                 [''CPUNONCE='' @ nonce_String nonce]),
         snd (shell fl sy rm tt
                 (bin fl @ '' -remote -bin '' @ bin fl @ '' -port9p '' @ N @ '' '' @ Quote (printable sy) ''/bin/bash'')
                 [''CPUNONCE='' @ nonce_String nonce]))"
    using assms(2,4,5,6,7,8) n by (rule runClient_namespace_on)
  then have rc: "runClient fl sy rm tt host ''/bin/bash''
      = (EvListen ''tcp'' ''127.0.0.1:0'' # EvServe addr (root fl) nonce d # fst (shell fl sy rm tt cmd envs),
         snd (shell fl sy rm tt cmd envs))"
    by (simp only: cmd_def envs_def)
  have sh: "filter marks (fst (shell fl sy rm tt cmd envs)) = [EvRaw, EvStart cmd, EvWait, EvSet]"
    using assms(10-17) assms(18) [of cmd] by (rule shell_success_marks)
  have sr: "snd (shell fl sy rm tt cmd envs) = Return (Wait rm)"
    using assms(10-17) assms(18) [of cmd] by (rule shell_success_marks)
  have m: "filter marks (fst (main fl sy rm tt [host])) =
     filter marks (fst (runClient fl sy rm tt ([host] ! 0) (remote_arg sy [host])))
       @ (case snd (runClient fl sy rm tt ([host] ! 0) (remote_arg sy [host])) of
            Exit n \<Rightarrow> [] | Return err \<Rightarrow> [EvSetTermios])"
    using assms(3) by (intro main_marks) simp_all
  have "filter marks (fst (main fl sy rm tt [host])) = [EvRaw, EvStart cmd, EvWait, EvSet, EvSetTermios]"
    unfolding m by (simp add: a rc sh sr)
  then show ?thesis
    by (simp only: cmd_def Quote_bash)
qed

lemma ok_config:
  "config ok_flags ok_sys (keyFile ok_flags)
     = Inr \<lparr>User = ''u'', Auth = ''signer'', HostKey = InsecureIgnoreHostKey\<rparr>"
  by code_simp

theorem remote_command_default_shell_witness:
  "Getenv (environ ok_sys) ''SHELL'' = ''/bin/bash'' \<and> wantNameSpace ok_sys
   \<and> listener_port ''127.0.0.1:40000'' = Inr ''40000''
   \<and> filter marks (fst (main ok_flags ok_sys ok_remote ok_tty [''testhost''])) =
       [EvRaw,
        EvStart (''cpud -remote -bin cpud -port9p 40000 '' @ [dquote] @ ''/bin/bash'' @ [dquote]),
        EvWait, EvSet, EvSetTermios]"
proof -
  have sh: "Getenv (environ ok_sys) ''SHELL'' = ''/bin/bash''"
    by code_simp
  have ns: "wantNameSpace ok_sys"
    by code_simp
  have lp: "listener_port ''127.0.0.1:40000'' = Inr ''40000''"
    by code_simp
  have "filter marks (fst (main ok_flags ok_sys ok_remote ok_tty [''testhost''])) =
      [EvRaw,
       EvStart (bin ok_flags @ '' -remote -bin '' @ bin ok_flags @ '' -port9p '' @ ''40000'' @ '' ''
                  @ [dquote] @ ''/bin/bash'' @ [dquote]),
       EvWait, EvSet, EvSetTermios]"
    using sh ns _ ok_config _ _ _ lp
  proof (rule remote_command_default_shell)
    show "GetTermios ok_tty = None" "termios_New ok_tty = None" "Raw ok_tty = None"
      by (simp_all add: ok_tty_def)
    show "dial ok_remote (network ok_flags) (JoinHostPort ''testhost'' (port ok_flags))
            \<lparr>User = ''u'', Auth = ''signer'', HostKey = InsecureIgnoreHostKey\<rparr> = None"
      by (simp add: dial_def ok_remote_def)
    show "ParseDuration ok_sys (timeout9P ok_flags) = Inr 100"
      by (simp add: ok_sys_def ok_flags_def)
    show "Listen ok_remote = Inr ''127.0.0.1:40000''"
      by (simp add: ok_remote_def)
    show "rand_Read ok_sys = Inr (\<lambda>i. of_nat (17 * i))"
      by (simp add: ok_sys_def)
    show "bin ok_flags \<noteq> []"
      by (simp add: ok_flags_def)
    show "NewSession ok_remote = None" "RequestPty ok_remote = None" "StdinPipe ok_remote = None"
      "StdoutPipe ok_remote = None" "StderrPipe ok_remote = None" "\<And>cmd. Start ok_remote cmd = None"
      by (simp_all add: ok_remote_def)
  qed
  with sh ns lp show ?thesis
    by (simp add: ok_flags_def)
qed

text \<open>
  The value of \<open>SHELL\<close> is not appended as it is in the session in which every
  call succeeds: the command started has \<open>/bin/bash\<close> between double quotes, and the
  command without the quotes is never started.
\<close>

theorem remote_command_is_quoted:
  "remote_arg ok_sys [''testhost''] = ''/bin/bash''
   \<and> filter marks (fst (main ok_flags ok_sys ok_remote ok_tty [''testhost''])) =
       [EvRaw,
        EvStart (''cpud -remote -bin cpud -port9p 40000 '' @ [dquote] @ ''/bin/bash'' @ [dquote]),
        EvWait, EvSet, EvSetTermios]
   \<and> EvStart ''cpud -remote -bin cpud -port9p 40000 /bin/bash''
        \<notin> set (fst (main ok_flags ok_sys ok_remote ok_tty [''testhost'']))"
proof -
  have "remote_arg ok_sys [''testhost''] = ''/bin/bash''"
    by code_simp
  then show ?thesis
    by (simp add: ok_run dquote_def)
qed

end
